theory Spec2Isabelle
  imports Main
begin

section \<open>Wire messages\<close>

text \<open>
  Both peers exchange one JSON object per WebSocket frame. A received frame is either
  text that the parser refuses (\<open>JSON.parse\<close> throws, \<open>gson.fromJson\<close> throws), or an
  object. The model covers objects whose members, where present, have the types of the
  message interface (strings, booleans, non-negative integers); a member that is absent
  reads as \<open>None\<close> (\<open>undefined\<close> in TypeScript, the JVM default in Kotlin). JSON text that
  is a value other than an object is not modelled. Logging and pop-up notifications have
  no influence on control flow and are left out.

  Scheduling. A handler runs without interruption, with two exceptions that the model
  makes explicit: where the extension awaits a call on the editor, listener events can
  arrive before the call completes (another incoming message in that window is not
  modelled); and a closure the plugin hands to \<open>invokeLater\<close> runs after the call that
  queued it has returned.
\<close>

record wire =
  filePath :: "string option"
  line :: "nat option"
  column :: "nat option"
  source :: "string option"
  isActive :: "bool option"
  action :: "string option"

datatype frame = Unparsable | Object wire

section \<open>The VS Code extension (extension.ts)\<close>

subsection \<open>Data\<close>

text \<open>\<open>interface SyncState\<close>: the type of a state the extension builds itself.\<close>

datatype ide = vscode | jetbrains

datatype act = close | select

record SyncState =
  filePath :: string
  line :: nat
  column :: nat
  source :: ide
  isActive :: bool
  action :: act

definition ide_name :: "ide \<Rightarrow> string" where
  "ide_name i = (case i of vscode \<Rightarrow> ''vscode'' | jetbrains \<Rightarrow> ''jetbrains'')"

definition act_name :: "act \<Rightarrow> string" where
  "act_name a = (case a of close \<Rightarrow> ''close'' | select \<Rightarrow> ''select'')"

text \<open>\<open>JSON.stringify(state)\<close>: every member of a \<open>SyncState\<close> is written.\<close>

definition stringify :: "SyncState \<Rightarrow> wire" where
  "stringify st =
     \<lparr> wire.filePath = Some (SyncState.filePath st),
       wire.line = Some (SyncState.line st),
       wire.column = Some (SyncState.column st),
       wire.source = Some (ide_name (SyncState.source st)),
       wire.isActive = Some (SyncState.isActive st),
       wire.action = Some (act_name (SyncState.action st)) \<rparr>"

text \<open>
  What the extension sees of the editor: URIs, the open documents, the visible editors
  and the tabs of every tab group.
\<close>

record Uri =
  scheme :: string
  fsPath :: string
  toString :: string

record Tab =
  label :: string
  input :: "Uri option"

datatype readyState = CONNECTING | OPEN | CLOSING | CLOSED

text \<open>
  Every call the extension makes on the editor or on the socket is recorded, in order.
  \<open>SetSelection\<close> stands for building the position and assigning \<open>editor.selection\<close>;
  \<open>RevealRangeInCenter\<close> for \<open>editor.revealRange(range, TextEditorRevealType.InCenter)\<close>.
\<close>

datatype vs_call =
    TabGroupsClose Tab
  | OpenTextDocument Uri
  | ShowTextDocument Uri
  | SetSelection "nat option" "nat option"
  | RevealRangeInCenter "nat option" "nat option"
  | Send wire
  | ClientClose
  | ServerClose
  | ServerListen nat

text \<open>
  The events the extension listens to, each with what its listener reads from it:
  the input URI of every closed tab; the new active editor (document URI and caret), if
  any; the closed document; a selection change (whether its editor is the active one, the
  document, the first selection's caret); the window's focus.
\<close>

datatype vs_event =
    DidChangeTabs "Uri option list"
  | DidChangeActiveTextEditor "(Uri \<times> nat \<times> nat) option"
  | DidCloseTextDocument Uri
  | DidChangeTextEditorSelection bool Uri nat nat
  | DidChangeWindowState bool

text \<open>
  The answers of the editor and of the runtime: \<open>Uri.file\<close>; \<open>String.prototype.toLowerCase\<close>
  (a parameter, because it folds all of Unicode and the characters of the model do not
  cover that); the open documents and visible editors (by document URI); the tab groups;
  which calls throw or reject; which events reach the listeners while an awaited call is
  pending; the configured port.
\<close>

record vs_env =
  uriFile :: "string \<Rightarrow> Uri"
  toLowerCase :: "string \<Rightarrow> string"
  textDocuments :: "Uri list"
  visibleTextEditors :: "Uri list"
  tabGroups :: "Tab list list"
  rejects :: "vs_call \<Rightarrow> bool"
  during :: "vs_call \<Rightarrow> vs_event list"
  configuredPort :: nat

text \<open>The fields of \<open>class VSCodeJetBrainsSync\<close>.\<close>

record VSCodeJetBrainsSync =
  wss :: "nat option"
  jetbrainsClient :: "readyState option"
  currentState :: "SyncState option"
  isActive :: bool
  isConnected :: bool
  autoReconnect :: bool
  isHandlingExternalUpdate :: bool

subsection \<open>Outgoing path\<close>

text \<open>
  \<open>updateState\<close>: the argument is stored first; it is sent when the client socket is open
  and the action is \<open>close\<close> or the window is active. A \<open>send\<close> that throws is caught and
  logged, the state is the same either way, so the model records the call.
\<close>

definition vs_updateState ::
  "VSCodeJetBrainsSync \<Rightarrow> SyncState \<Rightarrow> VSCodeJetBrainsSync \<times> vs_call list" where
  "vs_updateState s st =
     (let s' = s\<lparr>currentState := Some st\<rparr> in
      if jetbrainsClient s' = Some OPEN then
        (if SyncState.action st = close \<or> VSCodeJetBrainsSync.isActive s'
         then (s', [Send (stringify st)])
         else (s', []))
      else (s', []))"

text \<open>The loop over \<open>e.closed\<close> in the tab listener.\<close>

fun closedTabs ::
  "VSCodeJetBrainsSync \<Rightarrow> Uri option list \<Rightarrow> VSCodeJetBrainsSync \<times> vs_call list" where
  "closedTabs s [] = (s, [])"
| "closedTabs s (None # ts) = closedTabs s ts"
| "closedTabs s (Some uri # ts) =
     (if scheme uri \<noteq> ''file'' then closedTabs s ts
      else
        let (s1, out1) = vs_updateState s
              \<lparr> SyncState.filePath = fsPath uri, SyncState.line = 0, SyncState.column = 0,
                SyncState.source = vscode,
                SyncState.isActive = VSCodeJetBrainsSync.isActive s,
                SyncState.action = close \<rparr>;
            (s2, out2) = closedTabs s1 ts
        in (s2, out1 @ out2))"

text \<open>The listeners of \<open>setupEditorListeners\<close> and \<open>setupWindowListeners\<close>.\<close>

definition vs_listener ::
  "VSCodeJetBrainsSync \<Rightarrow> vs_event \<Rightarrow> VSCodeJetBrainsSync \<times> vs_call list" where
  "vs_listener s e =
     (case e of
        DidChangeTabs closed \<Rightarrow>
          if isHandlingExternalUpdate s then (s, []) else closedTabs s closed
      | DidChangeActiveTextEditor editor \<Rightarrow>
          (case editor of
             None \<Rightarrow> (s, [])
           | Some (uri, l, c) \<Rightarrow>
               if \<not> isHandlingExternalUpdate s then
                 vs_updateState s
                   \<lparr> SyncState.filePath = fsPath uri, SyncState.line = l,
                     SyncState.column = c, SyncState.source = vscode,
                     SyncState.isActive = VSCodeJetBrainsSync.isActive s,
                     SyncState.action = select \<rparr>
               else (s, []))
      | DidCloseTextDocument uri \<Rightarrow>
          if \<not> isHandlingExternalUpdate s then
            vs_updateState s
              \<lparr> SyncState.filePath = fsPath uri, SyncState.line = 0,
                SyncState.column = 0, SyncState.source = vscode,
                SyncState.isActive = VSCodeJetBrainsSync.isActive s,
                SyncState.action = close \<rparr>
          else (s, [])
      | DidChangeTextEditorSelection isActiveEditor uri l c \<Rightarrow>
          if isActiveEditor \<and> \<not> isHandlingExternalUpdate s then
            vs_updateState s
              \<lparr> SyncState.filePath = fsPath uri, SyncState.line = l,
                SyncState.column = c, SyncState.source = vscode,
                SyncState.isActive = VSCodeJetBrainsSync.isActive s,
                SyncState.action = select \<rparr>
          else (s, [])
      | DidChangeWindowState focused \<Rightarrow>
          (let s' = s\<lparr>VSCodeJetBrainsSync.isActive := focused\<rparr> in
           case currentState s' of
             None \<Rightarrow> (s', [])
           | Some cs \<Rightarrow>
               vs_updateState s'
                 (cs\<lparr>SyncState.isActive := VSCodeJetBrainsSync.isActive s',
                     SyncState.source := vscode\<rparr>)))"

fun vs_deliver ::
  "VSCodeJetBrainsSync \<Rightarrow> vs_event list \<Rightarrow> VSCodeJetBrainsSync \<times> vs_call list" where
  "vs_deliver s [] = (s, [])"
| "vs_deliver s (e # es) =
     (let (s1, out1) = vs_listener s e;
          (s2, out2) = vs_deliver s1 es
      in (s2, out1 @ out2))"

subsection \<open>Incoming path\<close>

text \<open>
  A call on the editor: the call is recorded; an awaited call lets the listeners run on
  the events that arrive while it is pending; the third component says whether the call
  threw (or its promise rejected).
\<close>

definition vs_await ::
  "vs_env \<Rightarrow> VSCodeJetBrainsSync \<Rightarrow> vs_call \<Rightarrow> VSCodeJetBrainsSync \<times> vs_call list \<times> bool" where
  "vs_await env s c =
     (let (s', out) = vs_deliver s (during env c) in (s', c # out, rejects env c))"

definition matchesDocument :: "vs_env \<Rightarrow> Uri \<Rightarrow> Uri \<Rightarrow> bool" where
  "matchesDocument env target doc \<longleftrightarrow>
     fsPath doc = fsPath target \<or> toString doc = toString target \<or>
     toLowerCase env (fsPath doc) = toLowerCase env (fsPath target)"

definition matchesEditor :: "vs_env \<Rightarrow> Uri \<Rightarrow> Uri \<Rightarrow> bool" where
  "matchesEditor env target doc \<longleftrightarrow>
     fsPath doc = fsPath target \<or>
     toLowerCase env (fsPath doc) = toLowerCase env (fsPath target)"

definition matchesTab :: "vs_env \<Rightarrow> Uri \<Rightarrow> Tab \<Rightarrow> bool" where
  "matchesTab env doc t \<longleftrightarrow>
     (case input t of
        None \<Rightarrow> False
      | Some u \<Rightarrow>
          fsPath u = fsPath doc \<or>
          toLowerCase env (fsPath u) = toLowerCase env (fsPath doc))"

definition editorToClose :: "vs_env \<Rightarrow> Uri \<Rightarrow> Uri option" where
  "editorToClose env target =
     (case find (matchesDocument env target) (textDocuments env) of
        Some doc \<Rightarrow> Some doc
      | None \<Rightarrow> find (matchesEditor env target) (visibleTextEditors env))"

text \<open>The loop over the tab groups: the first group that has a matching tab.\<close>

fun findTab :: "vs_env \<Rightarrow> Uri \<Rightarrow> Tab list list \<Rightarrow> Tab option" where
  "findTab env doc [] = None"
| "findTab env doc (g # gs) =
     (case find (matchesTab env doc) g of Some t \<Rightarrow> Some t | None \<Rightarrow> findTab env doc gs)"

text \<open>The tab the close branch closes for a target URI, if it finds the document and a tab.\<close>

definition tabToClose :: "vs_env \<Rightarrow> Uri \<Rightarrow> Tab option" where
  "tabToClose env target =
     (case editorToClose env target of
        None \<Rightarrow> None
      | Some doc \<Rightarrow> findTab env doc (tabGroups env))"

text \<open>
  The body of the \<open>try\<close> of the close branch, up to its \<open>return\<close>. The result says whether
  it threw: \<open>Uri.file\<close> of a missing path throws, and closing the tab can reject.
\<close>

definition vs_applyClose ::
  "vs_env \<Rightarrow> VSCodeJetBrainsSync \<Rightarrow> wire \<Rightarrow> VSCodeJetBrainsSync \<times> vs_call list \<times> bool" where
  "vs_applyClose env s w =
     (case wire.filePath w of
        None \<Rightarrow> (s, [], True)
      | Some p \<Rightarrow>
          (case tabToClose env (uriFile env p) of
             None \<Rightarrow> (s, [], False)
           | Some t \<Rightarrow> vs_await env s (TabGroupsClose t)))"

text \<open>
  The body of the \<open>try\<close> of the select branch. The position and the reveal are
  synchronous: no listener runs during them. Whatever throws is caught after it.
\<close>

definition vs_applySelect ::
  "vs_env \<Rightarrow> VSCodeJetBrainsSync \<Rightarrow> wire \<Rightarrow> VSCodeJetBrainsSync \<times> vs_call list" where
  "vs_applySelect env s w =
     (case wire.filePath w of
        None \<Rightarrow> (s, [])
      | Some p \<Rightarrow>
          (let uri = uriFile env p;
               (s1, out1, r1) = vs_await env s (OpenTextDocument uri)
           in if r1 then (s1, out1)
              else
                let (s2, out2, r2) = vs_await env s1 (ShowTextDocument uri)
                in if r2 then (s2, out1 @ out2)
                   else if rejects env (SetSelection (wire.line w) (wire.column w))
                   then (s2, out1 @ out2 @ [SetSelection (wire.line w) (wire.column w)])
                   else (s2, out1 @ out2 @
                           [SetSelection (wire.line w) (wire.column w),
                            RevealRangeInCenter (wire.line w) (wire.column w)])))"

text \<open>
  \<open>handleIncomingState\<close>. The close branch returns inside its \<open>try\<close>; when the \<open>try\<close>
  throws, the \<open>catch\<close> logs, the \<open>finally\<close> clears the flag and control goes on to the
  check of \<open>isActive\<close> below.
\<close>

definition vs_handleIncomingState ::
  "vs_env \<Rightarrow> VSCodeJetBrainsSync \<Rightarrow> wire \<Rightarrow> VSCodeJetBrainsSync \<times> vs_call list" where
  "vs_handleIncomingState env s w =
     (if wire.source w = Some ''vscode'' then (s, [])
      else
        let (s1, out1, goes_on) =
              (if wire.action w = Some ''close'' then
                 let (s', out, threw) =
                       vs_applyClose env (s\<lparr>isHandlingExternalUpdate := True\<rparr>) w
                 in (s'\<lparr>isHandlingExternalUpdate := False\<rparr>, out, threw)
               else (s, [], True))
        in if \<not> goes_on then (s1, out1)
           else if wire.isActive w \<noteq> Some True then (s1, out1)
           else
             let (s2, out2) =
                   vs_applySelect env (s1\<lparr>isHandlingExternalUpdate := True\<rparr>) w
             in (s2\<lparr>isHandlingExternalUpdate := False\<rparr>, out1 @ out2))"

text \<open>
  The \<open>message\<close> handler of the client socket: \<open>JSON.parse\<close>, then the handler. A parse
  error is caught and logged; nothing else happens.
\<close>

definition vs_onMessage ::
  "vs_env \<Rightarrow> VSCodeJetBrainsSync \<Rightarrow> frame \<Rightarrow> VSCodeJetBrainsSync \<times> vs_call list" where
  "vs_onMessage env s f =
     (case f of
        Unparsable \<Rightarrow> (s, [])
      | Object w \<Rightarrow> vs_handleIncomingState env s w)"

subsection \<open>The toggle\<close>

text \<open>
  \<open>setupServer\<close> and \<open>toggleAutoReconnect\<close>. The server object is recorded by the port it
  was created with, and \<open>ServerListen\<close> is recorded when it has been created.
  \<open>new WebSocketServer({ port })\<close> starts listening at once and throws for a port above
  65535; neither function catches that, so the third component of the result says
  whether the call ended by throwing. The old server is closed before, and the field
  keeps it when the new one cannot be created. A port in use is not an exception: it
  arrives later as an \<open>error\<close> event, which is logged.
\<close>

definition vs_setupServer ::
  "vs_env \<Rightarrow> VSCodeJetBrainsSync \<Rightarrow> VSCodeJetBrainsSync \<times> vs_call list \<times> bool" where
  "vs_setupServer env s =
     (if \<not> VSCodeJetBrainsSync.autoReconnect s then (s, [], False)
      else
        let closed = (if wss s \<noteq> None then [ServerClose] else [])
        in if configuredPort env > 65535 then (s, closed, True)
           else (s\<lparr>wss := Some (configuredPort env)\<rparr>,
                 closed @ [ServerListen (configuredPort env)], False))"

definition vs_toggleAutoReconnect ::
  "vs_env \<Rightarrow> VSCodeJetBrainsSync \<Rightarrow> VSCodeJetBrainsSync \<times> vs_call list \<times> bool" where
  "vs_toggleAutoReconnect env s =
     (let s1 = s\<lparr>VSCodeJetBrainsSync.autoReconnect := \<not> VSCodeJetBrainsSync.autoReconnect s\<rparr>
      in if \<not> VSCodeJetBrainsSync.autoReconnect s1 then
           let (s2, out2) =
                 (if jetbrainsClient s1 \<noteq> None
                  then (s1\<lparr>jetbrainsClient := None\<rparr>, [ClientClose]) else (s1, []));
               (s3, out3) =
                 (if wss s2 \<noteq> None then (s2\<lparr>wss := None\<rparr>, [ServerClose]) else (s2, []))
           in (s3\<lparr>VSCodeJetBrainsSync.isConnected := False\<rparr>, out2 @ out3, False)
         else vs_setupServer env s1)"

section \<open>The JetBrains plugin (VSCodeJetBrainsSyncService.kt)\<close>

subsection \<open>Data\<close>

text \<open>
  \<open>data class EditorState\<close>. Gson builds an \<open>EditorState\<close> reflectively, without calling
  the constructor (the class has no constructor without arguments): a member absent from
  the frame is left at the JVM default (\<open>null\<close>, \<open>0\<close>, \<open>false\<close>), also where the Kotlin
  type is not nullable and where the constructor has a default argument. The reference
  fields are therefore options. A state the plugin builds itself has \<open>filePath\<close> and
  \<open>action\<close> set and \<open>source = "jetbrains"\<close>, the default argument.
\<close>

record EditorState =
  filePath :: "string option"
  line :: nat
  column :: nat
  source :: "string option"
  isActive :: bool
  action :: "string option"

text \<open>
  \<open>gson.fromJson\<close>. Text that is no JSON object makes it throw (\<open>None\<close>), and so does a
  \<open>line\<close> or \<open>column\<close> that does not fit the Kotlin \<open>Int\<close> of the field.
\<close>

definition fitsInt :: "nat \<Rightarrow> bool" where
  "fitsInt n \<longleftrightarrow> n \<le> 2147483647"

definition readInt :: "nat option \<Rightarrow> nat option" where
  "readInt member =
     (case member of
        None \<Rightarrow> Some 0
      | Some n \<Rightarrow> if fitsInt n then Some n else None)"

definition fromJson :: "frame \<Rightarrow> EditorState option" where
  "fromJson f =
     (case f of
        Unparsable \<Rightarrow> None
      | Object w \<Rightarrow>
          (case (readInt (wire.line w), readInt (wire.column w)) of
             (Some l, Some c) \<Rightarrow>
               Some \<lparr> EditorState.filePath = wire.filePath w,
                      EditorState.line = l,
                      EditorState.column = c,
                      EditorState.source = wire.source w,
                      EditorState.isActive =
                        (case wire.isActive w of None \<Rightarrow> False | Some b \<Rightarrow> b),
                      EditorState.action = wire.action w \<rparr>
           | _ \<Rightarrow> None))"

text \<open>\<open>gson.toJson\<close>: a member that is \<open>null\<close> is not written.\<close>

definition toJson :: "EditorState \<Rightarrow> wire" where
  "toJson st =
     \<lparr> wire.filePath = EditorState.filePath st,
       wire.line = Some (EditorState.line st),
       wire.column = Some (EditorState.column st),
       wire.source = EditorState.source st,
       wire.isActive = Some (EditorState.isActive st),
       wire.action = EditorState.action st \<rparr>"

text \<open>
  Work handed to \<open>invokeLater\<close>: the two closures of \<open>handleIncomingState\<close>, each with
  what it reads of the state it captured (\<open>filePath\<close>; \<open>filePath\<close>, \<open>line\<close>, \<open>column\<close>). The
  platform runs such a closure on its event thread after the call that queued it has
  returned.
\<close>

datatype jb_task = ApplyClose "string option" | ApplySelect "string option" nat nat

text \<open>
  The calls of the plugin on the platform and on the socket, in order. A file is named by
  the path of its \<open>VirtualFile\<close>. \<open>Connect\<close> stands for creating the client for
  \<open>ws://localhost:port/jetbrains\<close> and starting \<open>connectBlocking\<close> on a pooled thread;
  \<open>RetryLater\<close> for the pooled thread that sleeps five seconds and then queues
  \<open>connectWebSocket\<close>.
\<close>

datatype jb_call =
    InvokeLater jb_task
  | CloseFile string
  | OpenFile string
  | MoveToLogicalPosition string nat nat
  | ScrollToCaret string
  | SocketSend wire
  | SocketClose
  | Connect nat
  | RetryLater

text \<open>
  The events of the plugin's listeners, each with what its listener reads: the file; the
  caret of the selected text editor, if there is one; for the focus listeners also the
  first selected file; for \<open>windowGainedFocus\<close> whether the frame is visible, not
  iconified and focused.
\<close>

datatype jb_event =
    FileOpened string "(nat \<times> nat) option"
  | FileClosed string
  | SelectionChanged "string option" "(nat \<times> nat) option"
  | CaretPositionChanged string nat nat
  | WindowGainedFocus bool "(nat \<times> nat) option" "string option"
  | WindowLostFocus "(nat \<times> nat) option" "string option"

text \<open>
  The answers of the platform: the virtual file of a path, the selected editors (file, and
  whether the editor is a \<open>TextEditor\<close>), the editors \<open>openFile\<close> returns (whether each is
  a \<open>TextEditor\<close>), whether the visible area holds a position, which calls throw, which
  listener events the platform fires during a call, the configured port, and whether
  creating the client throws.
\<close>

record jb_env =
  findFileByIoFile :: "string \<Rightarrow> string option"
  selectedEditors :: "(string \<times> bool) list"
  openFile :: "string \<Rightarrow> bool list"
  visibleAreaContains :: "string \<Rightarrow> nat \<Rightarrow> nat \<Rightarrow> bool"
  throws :: "jb_call \<Rightarrow> bool"
  fires :: "jb_call \<Rightarrow> jb_event list"
  port :: nat
  clientThrows :: bool

record WebSocketClient =
  isOpen :: bool

text \<open>The fields of \<open>class VSCodeJetBrainsSyncService\<close>.\<close>

record VSCodeJetBrainsSyncService =
  webSocket :: "WebSocketClient option"
  isActive :: bool
  isHandlingExternalUpdate :: bool
  isConnected :: bool
  isReconnecting :: bool
  autoReconnect :: bool

subsection \<open>Connection and toggle\<close>

text \<open>
  \<open>connectWebSocket\<close>, up to the point where the connection attempt runs on its own
  thread. When creating the client throws, the field keeps the old client.
\<close>

definition jb_connectWebSocket ::
  "jb_env \<Rightarrow> VSCodeJetBrainsSyncService \<Rightarrow> VSCodeJetBrainsSyncService \<times> jb_call list" where
  "jb_connectWebSocket env s =
     (if \<not> VSCodeJetBrainsSyncService.autoReconnect s
      then (s\<lparr>isReconnecting := False\<rparr>, [])
      else
        let s1 = s\<lparr>isReconnecting := True\<rparr>
        in if clientThrows env
           then (s1\<lparr>VSCodeJetBrainsSyncService.isConnected := False, isReconnecting := True\<rparr>,
                 [RetryLater])
           else (s1\<lparr>webSocket := Some \<lparr>isOpen = False\<rparr>\<rparr>, [Connect (port env)]))"

definition jb_toggleAutoReconnect ::
  "jb_env \<Rightarrow> VSCodeJetBrainsSyncService \<Rightarrow> VSCodeJetBrainsSyncService \<times> jb_call list" where
  "jb_toggleAutoReconnect env s =
     (let s1 = s\<lparr>VSCodeJetBrainsSyncService.autoReconnect :=
                    \<not> VSCodeJetBrainsSyncService.autoReconnect s\<rparr>
      in if \<not> VSCodeJetBrainsSyncService.autoReconnect s1 then
           (s1\<lparr>webSocket := None,
                VSCodeJetBrainsSyncService.isConnected := False,
                isReconnecting := False\<rparr>,
            (case webSocket s1 of
               None \<Rightarrow> []
             | Some client \<Rightarrow> if isOpen client then [SocketClose] else []))
         else jb_connectWebSocket env (s1\<lparr>isReconnecting := True\<rparr>))"

subsection \<open>Outgoing path\<close>

definition jb_updateState ::
  "jb_env \<Rightarrow> VSCodeJetBrainsSyncService \<Rightarrow> EditorState \<Rightarrow>
   VSCodeJetBrainsSyncService \<times> jb_call list" where
  "jb_updateState env s st =
     (if VSCodeJetBrainsSyncService.isHandlingExternalUpdate s then (s, [])
      else
        case webSocket s of
          Some client \<Rightarrow>
            if isOpen client then
              (if EditorState.action st = Some ''close'' \<or> VSCodeJetBrainsSyncService.isActive s
               then (s, [SocketSend (toJson st)])
               else (s, []))
            else if \<not> isReconnecting s then jb_connectWebSocket env s
            else (s, [])
        | None \<Rightarrow> jb_connectWebSocket env s)"

definition jb_updateStateFromEditor ::
  "jb_env \<Rightarrow> VSCodeJetBrainsSyncService \<Rightarrow> nat \<times> nat \<Rightarrow> string \<Rightarrow>
   VSCodeJetBrainsSyncService \<times> jb_call list" where
  "jb_updateStateFromEditor env s caret file =
     jb_updateState env s
       \<lparr> EditorState.filePath = Some file,
         EditorState.line = fst caret,
         EditorState.column = snd caret,
         EditorState.source = Some ''jetbrains'',
         EditorState.isActive = VSCodeJetBrainsSyncService.isActive s,
         EditorState.action = Some ''select'' \<rparr>"

text \<open>The listeners of \<open>setupEditorListeners\<close>, \<open>setupCaretListener\<close> and \<open>setupWindowListeners\<close>.\<close>

definition jb_listener ::
  "jb_env \<Rightarrow> VSCodeJetBrainsSyncService \<Rightarrow> jb_event \<Rightarrow>
   VSCodeJetBrainsSyncService \<times> jb_call list" where
  "jb_listener env s e =
     (case e of
        FileOpened file editor \<Rightarrow>
          if VSCodeJetBrainsSyncService.isHandlingExternalUpdate s then (s, [])
          else (case editor of
                  None \<Rightarrow> (s, [])
                | Some caret \<Rightarrow> jb_updateStateFromEditor env s caret file)
      | FileClosed file \<Rightarrow>
          if VSCodeJetBrainsSyncService.isHandlingExternalUpdate s then (s, [])
          else jb_updateState env s
                 \<lparr> EditorState.filePath = Some file,
                   EditorState.line = 0,
                   EditorState.column = 0,
                   EditorState.source = Some ''jetbrains'',
                   EditorState.isActive = VSCodeJetBrainsSyncService.isActive s,
                   EditorState.action = Some ''close'' \<rparr>
      | SelectionChanged newFile editor \<Rightarrow>
          (case newFile of
             None \<Rightarrow> (s, [])
           | Some file \<Rightarrow>
               if VSCodeJetBrainsSyncService.isHandlingExternalUpdate s then (s, [])
               else (case editor of
                       None \<Rightarrow> (s, [])
                     | Some caret \<Rightarrow> jb_updateStateFromEditor env s caret file))
      | CaretPositionChanged file l c \<Rightarrow>
          if \<not> VSCodeJetBrainsSyncService.isHandlingExternalUpdate s
          then jb_updateStateFromEditor env s (l, c) file
          else (s, [])
      | WindowGainedFocus focused editor file \<Rightarrow>
          if focused then
            (let s' = s\<lparr>VSCodeJetBrainsSyncService.isActive := True\<rparr> in
             case (editor, file) of
               (Some caret, Some f) \<Rightarrow> jb_updateStateFromEditor env s' caret f
             | _ \<Rightarrow> (s', []))
          else (s, [])
      | WindowLostFocus editor file \<Rightarrow>
          (let s' = s\<lparr>VSCodeJetBrainsSyncService.isActive := False\<rparr> in
           case (editor, file) of
             (Some caret, Some f) \<Rightarrow> jb_updateStateFromEditor env s' caret f
           | _ \<Rightarrow> (s', [])))"

fun jb_deliver ::
  "jb_env \<Rightarrow> VSCodeJetBrainsSyncService \<Rightarrow> jb_event list \<Rightarrow>
   VSCodeJetBrainsSyncService \<times> jb_call list" where
  "jb_deliver env s [] = (s, [])"
| "jb_deliver env s (e # es) =
     (let (s1, out1) = jb_listener env s e;
          (s2, out2) = jb_deliver env s1 es
      in (s2, out1 @ out2))"

subsection \<open>Incoming path\<close>

text \<open>
  \<open>handleIncomingState\<close>: each branch sets the flag, queues its closure with
  \<open>invokeLater\<close> and clears the flag in the \<open>finally\<close>; the closure is not run here.
\<close>

definition jb_invokeLater ::
  "VSCodeJetBrainsSyncService \<Rightarrow> jb_task \<Rightarrow> VSCodeJetBrainsSyncService \<times> jb_call list" where
  "jb_invokeLater s t = (s, [InvokeLater t])"

definition jb_handleIncomingState ::
  "VSCodeJetBrainsSyncService \<Rightarrow> EditorState \<Rightarrow>
   VSCodeJetBrainsSyncService \<times> jb_call list" where
  "jb_handleIncomingState s st =
     (if EditorState.action st = Some ''close'' then
        let (s1, out) =
              jb_invokeLater (s\<lparr>VSCodeJetBrainsSyncService.isHandlingExternalUpdate := True\<rparr>)
                (ApplyClose (EditorState.filePath st))
        in (s1\<lparr>VSCodeJetBrainsSyncService.isHandlingExternalUpdate := False\<rparr>, out)
      else if \<not> EditorState.isActive st then (s, [])
      else
        let (s1, out) =
              jb_invokeLater (s\<lparr>VSCodeJetBrainsSyncService.isHandlingExternalUpdate := True\<rparr>)
                (ApplySelect (EditorState.filePath st) (EditorState.line st)
                   (EditorState.column st))
        in (s1\<lparr>VSCodeJetBrainsSyncService.isHandlingExternalUpdate := False\<rparr>, out))"

text \<open>\<open>onMessage\<close>: a \<open>null\<close> message and a frame Gson refuses are dropped.\<close>

definition jb_onMessage ::
  "VSCodeJetBrainsSyncService \<Rightarrow> frame option \<Rightarrow>
   VSCodeJetBrainsSyncService \<times> jb_call list" where
  "jb_onMessage s message =
     (case message of
        None \<Rightarrow> (s, [])
      | Some f \<Rightarrow>
          (case fromJson f of
             None \<Rightarrow> (s, [])
           | Some st \<Rightarrow>
               if EditorState.source st \<noteq> Some ''jetbrains''
               then jb_handleIncomingState s st
               else (s, [])))"

text \<open>
  A call on the platform from a queued closure: the call is recorded, the listeners run
  on the events the platform fires during it, and the third component says whether the
  call threw.
\<close>

definition jb_perform ::
  "jb_env \<Rightarrow> VSCodeJetBrainsSyncService \<Rightarrow> jb_call \<Rightarrow>
   VSCodeJetBrainsSyncService \<times> jb_call list \<times> bool" where
  "jb_perform env s c =
     (let (s', out) = jb_deliver env s (fires env c) in (s', c # out, throws env c))"

text \<open>
  The closure of the close branch. \<open>File(null)\<close> throws; every exception is caught inside
  the closure.
\<close>

definition jb_applyClose ::
  "jb_env \<Rightarrow> VSCodeJetBrainsSyncService \<Rightarrow> string option \<Rightarrow>
   VSCodeJetBrainsSyncService \<times> jb_call list" where
  "jb_applyClose env s path =
     (case path of
        None \<Rightarrow> (s, [])
      | Some p \<Rightarrow>
          (case findFileByIoFile env p of
             None \<Rightarrow> (s, [])
           | Some vf \<Rightarrow>
               (let (s1, out1, threw) = jb_perform env s (CloseFile vf) in (s1, out1))))"

text \<open>
  The closure of the select branch: the selected editor of the file if it is a text
  editor, else the first editor \<open>openFile\<close> returns if that is one; then the caret; then
  the scroll, when the visible area does not hold the position.
\<close>

definition existingEditor :: "jb_env \<Rightarrow> string \<Rightarrow> bool" where
  "existingEditor env vf =
     (case find (\<lambda>e. fst e = vf) (selectedEditors env) of
        Some e \<Rightarrow> snd e
      | None \<Rightarrow> False)"

definition jb_applySelect ::
  "jb_env \<Rightarrow> VSCodeJetBrainsSyncService \<Rightarrow> string option \<Rightarrow> nat \<Rightarrow> nat \<Rightarrow>
   VSCodeJetBrainsSyncService \<times> jb_call list" where
  "jb_applySelect env s path l c =
     (case path of
        None \<Rightarrow> (s, [])
      | Some p \<Rightarrow>
          (case findFileByIoFile env p of
             None \<Rightarrow> (s, [])
           | Some vf \<Rightarrow>
               (let (s1, out1, editor) =
                      (if existingEditor env vf then (s, [], True)
                       else
                         let (s', out, threw) = jb_perform env s (OpenFile vf)
                         in (s', out,
                             \<not> threw \<and> (case openFile env vf of [] \<Rightarrow> False | e # _ \<Rightarrow> e)))
                in if \<not> editor then (s1, out1)
                   else
                     let (s2, out2, threw2) =
                           jb_perform env s1 (MoveToLogicalPosition vf l c)
                     in if threw2 then (s2, out1 @ out2)
                        else if visibleAreaContains env vf l c
                        then (s2, out1 @ out2)
                        else
                          let (s3, out3, threw3) = jb_perform env s2 (ScrollToCaret vf)
                          in (s3, out1 @ out2 @ out3))))"

definition jb_runTask ::
  "jb_env \<Rightarrow> VSCodeJetBrainsSyncService \<Rightarrow> jb_task \<Rightarrow>
   VSCodeJetBrainsSyncService \<times> jb_call list" where
  "jb_runTask env s t =
     (case t of
        ApplyClose path \<Rightarrow> jb_applyClose env s path
      | ApplySelect path l c \<Rightarrow> jb_applySelect env s path l c)"

subsection \<open>Socket callbacks and runs\<close>

text \<open>
  The callbacks of the client: \<open>onOpen\<close> (with the caret of the selected text editor and
  the first selected file, if any), \<open>onClose\<close>, \<open>onError\<close>, the pooled thread's branch
  for a \<open>connectBlocking\<close> that did not succeed, and \<open>restartConnection\<close>.
\<close>

definition jb_onOpen ::
  "jb_env \<Rightarrow> VSCodeJetBrainsSyncService \<Rightarrow> (nat \<times> nat) option \<Rightarrow> string option \<Rightarrow>
   VSCodeJetBrainsSyncService \<times> jb_call list" where
  "jb_onOpen env s editor file =
     (let s' = s\<lparr>VSCodeJetBrainsSyncService.isConnected := True, isReconnecting := False\<rparr>
      in case (editor, file) of
           (Some caret, Some f) \<Rightarrow> jb_updateStateFromEditor env s' caret f
         | _ \<Rightarrow> (s', []))"

definition jb_onClose ::
  "VSCodeJetBrainsSyncService \<Rightarrow> VSCodeJetBrainsSyncService \<times> jb_call list" where
  "jb_onClose s =
     (let s' = s\<lparr>VSCodeJetBrainsSyncService.isConnected := False\<rparr>
      in if \<not> isReconnecting s' \<and> VSCodeJetBrainsSyncService.autoReconnect s'
         then (s'\<lparr>isReconnecting := True\<rparr>, [RetryLater])
         else (s', []))"

definition jb_onError ::
  "VSCodeJetBrainsSyncService \<Rightarrow> VSCodeJetBrainsSyncService \<times> jb_call list" where
  "jb_onError s = (s\<lparr>VSCodeJetBrainsSyncService.isConnected := False\<rparr>, [])"

definition jb_connectFailed ::
  "VSCodeJetBrainsSyncService \<Rightarrow> VSCodeJetBrainsSyncService \<times> jb_call list" where
  "jb_connectFailed s = (s\<lparr>isReconnecting := True\<rparr>, [RetryLater])"

definition jb_restartConnection ::
  "jb_env \<Rightarrow> VSCodeJetBrainsSyncService \<Rightarrow> VSCodeJetBrainsSyncService \<times> jb_call list" where
  "jb_restartConnection env s =
     (let closing = (case webSocket s of
                       None \<Rightarrow> []
                     | Some client \<Rightarrow> if isOpen client then [SocketClose] else []);
          (s', out) = jb_connectWebSocket env
                        (s\<lparr>webSocket := None, VSCodeJetBrainsSyncService.isConnected := False\<rparr>)
      in (s', closing @ out))"

text \<open>
  What can happen to the plugin, one step at a time: the toggle, a message, a listener
  event, a queued closure, the queued \<open>connectWebSocket\<close> of a retry, the callbacks
  above, and the library opening or closing the client the field refers to. Steps are
  taken in any order and with any answers of the platform, so the runs below include
  every run of the plugin in which handlers do not interleave.
\<close>

datatype jb_step =
    DoToggle
  | DoMessage "frame option"
  | DoEvent jb_event
  | DoClosure jb_task
  | DoRetry
  | DoOnOpen "(nat \<times> nat) option" "string option"
  | DoOnClose
  | DoOnError
  | DoConnectFailed
  | DoRestart
  | DoClientOpen bool

definition jb_do ::
  "jb_env \<Rightarrow> VSCodeJetBrainsSyncService \<Rightarrow> jb_step \<Rightarrow> VSCodeJetBrainsSyncService" where
  "jb_do env s step =
     (case step of
        DoToggle \<Rightarrow> fst (jb_toggleAutoReconnect env s)
      | DoMessage m \<Rightarrow> fst (jb_onMessage s m)
      | DoEvent e \<Rightarrow> fst (jb_listener env s e)
      | DoClosure t \<Rightarrow> fst (jb_runTask env s t)
      | DoRetry \<Rightarrow> fst (jb_connectWebSocket env s)
      | DoOnOpen editor file \<Rightarrow> fst (jb_onOpen env s editor file)
      | DoOnClose \<Rightarrow> fst (jb_onClose s)
      | DoOnError \<Rightarrow> fst (jb_onError s)
      | DoConnectFailed \<Rightarrow> fst (jb_connectFailed s)
      | DoRestart \<Rightarrow> fst (jb_restartConnection env s)
      | DoClientOpen b \<Rightarrow>
          s\<lparr>webSocket := map_option (\<lambda>client. client\<lparr>isOpen := b\<rparr>) (webSocket s)\<rparr>)"

text \<open>The plugin as its initialisers and its \<open>init\<close> block leave it.\<close>

definition jb_initial :: VSCodeJetBrainsSyncService where
  "jb_initial =
     \<lparr> webSocket = None, VSCodeJetBrainsSyncService.isActive = False,
       VSCodeJetBrainsSyncService.isHandlingExternalUpdate = False,
       VSCodeJetBrainsSyncService.isConnected = False, isReconnecting = False,
       VSCodeJetBrainsSyncService.autoReconnect = False \<rparr>"

fun jb_run ::
  "VSCodeJetBrainsSyncService \<Rightarrow> (jb_env \<times> jb_step) list \<Rightarrow> VSCodeJetBrainsSyncService" where
  "jb_run s [] = s"
| "jb_run s ((env, step) # steps) = jb_run (jb_do env s step) steps"

definition jb_after :: "(jb_env \<times> jb_step) list \<Rightarrow> VSCodeJetBrainsSyncService" where
  "jb_after steps = jb_run jb_initial steps"

section \<open>Example sessions\<close>

text \<open>
  A POSIX \<open>Uri.file\<close> and a case folding of the ASCII letters; an editor and a platform
  in which every call succeeds and no listener event is fired; sessions of both peers
  before sync is enabled and with an open connection; the message of the scenario "peer
  A (active) selects /x.py at 10:4", as either peer sends it, and frames like it that
  lack a member; editors that show \<open>/y.py\<close> and \<open>/x.py\<close>, or \<open>/y.py\<close> only; a run of the
  plugin that enables sync and gets connected.
\<close>

definition lowerChar :: "char \<Rightarrow> char" where
  "lowerChar c =
     (if (65::nat) \<le> of_char c \<and> of_char c \<le> (90::nat)
      then char_of (of_char c + (32::nat)) else c)"

definition asciiLower :: "string \<Rightarrow> string" where
  "asciiLower s = map lowerChar s"

definition file_uri :: "string \<Rightarrow> Uri" where
  "file_uri p = \<lparr> scheme = ''file'', fsPath = p, toString = ''file://'' @ p \<rparr>"

definition calm_editor :: vs_env where
  "calm_editor =
     \<lparr> uriFile = file_uri, toLowerCase = asciiLower, textDocuments = [],
       visibleTextEditors = [], tabGroups = [],
       rejects = (\<lambda>c. False), during = (\<lambda>c. []), configuredPort = 3000 \<rparr>"

definition vs_fresh :: VSCodeJetBrainsSync where
  "vs_fresh =
     \<lparr> wss = None, jetbrainsClient = None, currentState = None,
       VSCodeJetBrainsSync.isActive = True, VSCodeJetBrainsSync.isConnected = False,
       VSCodeJetBrainsSync.autoReconnect = False,
       VSCodeJetBrainsSync.isHandlingExternalUpdate = False \<rparr>"

definition vs_linked :: VSCodeJetBrainsSync where
  "vs_linked =
     \<lparr> wss = Some 3000, jetbrainsClient = Some OPEN, currentState = None,
       VSCodeJetBrainsSync.isActive = True, VSCodeJetBrainsSync.isConnected = True,
       VSCodeJetBrainsSync.autoReconnect = True,
       VSCodeJetBrainsSync.isHandlingExternalUpdate = False \<rparr>"

definition calm_platform :: jb_env where
  "calm_platform =
     \<lparr> findFileByIoFile = (\<lambda>p. Some p), selectedEditors = [], openFile = (\<lambda>f. [True]),
       visibleAreaContains = (\<lambda>f l c. False), throws = (\<lambda>c. False), fires = (\<lambda>c. []),
       port = 3000, clientThrows = False \<rparr>"

definition jb_fresh :: VSCodeJetBrainsSyncService where
  "jb_fresh =
     \<lparr> webSocket = None, VSCodeJetBrainsSyncService.isActive = False,
       VSCodeJetBrainsSyncService.isHandlingExternalUpdate = False,
       VSCodeJetBrainsSyncService.isConnected = False, isReconnecting = False,
       VSCodeJetBrainsSyncService.autoReconnect = False \<rparr>"

definition jb_linked :: VSCodeJetBrainsSyncService where
  "jb_linked =
     \<lparr> webSocket = Some \<lparr>isOpen = True\<rparr>, VSCodeJetBrainsSyncService.isActive = True,
       VSCodeJetBrainsSyncService.isHandlingExternalUpdate = False,
       VSCodeJetBrainsSyncService.isConnected = True, isReconnecting = False,
       VSCodeJetBrainsSyncService.autoReconnect = True \<rparr>"

definition select_by :: "string \<Rightarrow> bool \<Rightarrow> wire" where
  "select_by peer active =
     \<lparr> wire.filePath = Some ''/x.py'', wire.line = Some 10, wire.column = Some 4,
       wire.source = Some peer, wire.isActive = Some active,
       wire.action = Some ''select'' \<rparr>"

definition close_by :: "string \<Rightarrow> bool \<Rightarrow> wire" where
  "close_by peer active =
     \<lparr> wire.filePath = Some ''/x.py'', wire.line = Some 0, wire.column = Some 0,
       wire.source = Some peer, wire.isActive = Some active,
       wire.action = Some ''close'' \<rparr>"

definition tab_of :: "string \<Rightarrow> Tab" where
  "tab_of p = \<lparr> label = p, input = Some (file_uri p) \<rparr>"

definition editor_showing :: vs_env where
  "editor_showing =
     calm_editor
       \<lparr> textDocuments := [file_uri ''/y.py'', file_uri ''/x.py''],
         tabGroups := [[tab_of ''/y.py''], [tab_of ''/x.py'']] \<rparr>"

definition editor_elsewhere :: vs_env where
  "editor_elsewhere =
     calm_editor
       \<lparr> textDocuments := [file_uri ''/y.py''],
         tabGroups := [[tab_of ''/y.py'']] \<rparr>"

definition connecting_run :: "(jb_env \<times> jb_step) list" where
  "connecting_run =
     [(calm_platform, DoToggle), (calm_platform, DoClientOpen True),
      (calm_platform, DoOnOpen None None), (calm_platform, DoEvent (WindowGainedFocus True None None))]"

definition jb_close_candidate :: EditorState where
  "jb_close_candidate =
     \<lparr> EditorState.filePath = Some ''/x.py'', EditorState.line = 0, EditorState.column = 0,
       EditorState.source = Some ''jetbrains'', EditorState.isActive = True,
       EditorState.action = Some ''close'' \<rparr>"

definition vs_select_candidate :: SyncState where
  "vs_select_candidate =
     \<lparr> SyncState.filePath = ''/x.py'', SyncState.line = 10, SyncState.column = 4,
       SyncState.source = vscode, SyncState.isActive = True, SyncState.action = select \<rparr>"

definition no_action :: wire where
  "no_action = (select_by ''jetbrains'' True)\<lparr>wire.action := None\<rparr>"

definition echoing_platform :: jb_env where
  "echoing_platform =
     calm_platform
       \<lparr> fires := (\<lambda>c. case c of CloseFile f \<Rightarrow> [FileClosed f] | _ \<Rightarrow> []) \<rparr>"

definition empty_object :: wire where
  "empty_object =
     \<lparr> wire.filePath = None, wire.line = None, wire.column = None, wire.source = None,
       wire.isActive = None, wire.action = None \<rparr>"

section \<open>What the listeners and the editor calls put out\<close>

text \<open>The listeners of the extension call nothing but \<open>send\<close>.\<close>

lemma vs_updateState_sends: "set (snd (vs_updateState s st)) \<subseteq> range Send"
  by (auto simp: vs_updateState_def Let_def)

lemma closedTabs_sends: "set (snd (closedTabs s ts)) \<subseteq> range Send"
proof (induction ts arbitrary: s)
  case Nil
  show ?case by simp
next
  case (Cons t ts)
  show ?case
  proof (cases t)
    case None
    then show ?thesis using Cons.IH by simp
  next
    case (Some uri)
    let ?st = "\<lparr> SyncState.filePath = fsPath uri, SyncState.line = 0, SyncState.column = 0,
                SyncState.source = vscode,
                SyncState.isActive = VSCodeJetBrainsSync.isActive s,
                SyncState.action = close \<rparr>"
    obtain s1 out1 where u: "vs_updateState s ?st = (s1, out1)"
      by (cases "vs_updateState s ?st") 
    have "set out1 \<subseteq> range Send"
      using vs_updateState_sends [of s ?st] u by simp
    moreover have "set (snd (closedTabs s1 ts)) \<subseteq> range Send"
      by (rule Cons.IH)
    ultimately show ?thesis
      using Some u Cons.IH [of s] by (auto simp: Let_def split: prod.splits)
  qed
qed

lemma vs_listener_sends: "set (snd (vs_listener s e)) \<subseteq> range Send"
proof (cases e)
  case (DidChangeTabs closed)
  then show ?thesis using closedTabs_sends [of s closed] by (simp add: vs_listener_def)
next
  case (DidChangeActiveTextEditor editor)
  then show ?thesis
    using vs_updateState_sends [of s]
    by (auto simp: vs_listener_def split: option.splits prod.splits)
next
  case (DidCloseTextDocument uri)
  then show ?thesis
    using vs_updateState_sends [of s] by (auto simp: vs_listener_def)
next
  case (DidChangeTextEditorSelection a uri l c)
  then show ?thesis
    using vs_updateState_sends [of s] by (auto simp: vs_listener_def)
next
  case (DidChangeWindowState focused)
  then show ?thesis
    using vs_updateState_sends [of "s\<lparr>VSCodeJetBrainsSync.isActive := focused\<rparr>"]
    by (auto simp: vs_listener_def Let_def split: option.splits)
qed

lemma vs_deliver_sends: "set (snd (vs_deliver s es)) \<subseteq> range Send"
proof (induction es arbitrary: s)
  case Nil
  show ?case by simp
next
  case (Cons e es)
  obtain s1 out1 where l: "vs_listener s e = (s1, out1)"
    by (cases "vs_listener s e")
  have "set out1 \<subseteq> range Send"
    using vs_listener_sends [of s e] l by simp
  moreover have "set (snd (vs_deliver s1 es)) \<subseteq> range Send"
    by (rule Cons.IH)
  ultimately show ?case
    using l by (auto simp: Let_def split: prod.splits)
qed

lemma vs_await_calls:
  "\<exists>s' rest. vs_await env s c = (s', c # rest, rejects env c) \<and> set rest \<subseteq> range Send"
  using vs_deliver_sends [of s "during env c"]
  by (auto simp: vs_await_def Let_def split: prod.splits)


text \<open>The listeners of the plugin send, or start a connection attempt.\<close>

lemma jb_connectWebSocket_calls:
  "set (snd (jb_connectWebSocket env s)) \<subseteq> {Connect (port env), RetryLater}"
  by (auto simp: jb_connectWebSocket_def Let_def)

lemma jb_updateState_calls:
  "set (snd (jb_updateState env s st)) \<subseteq> range SocketSend \<union> {Connect (port env), RetryLater}"
  using jb_connectWebSocket_calls [of env s]
  by (auto simp: jb_updateState_def split: option.splits)

lemma jb_listener_calls:
  "set (snd (jb_listener env s e)) \<subseteq> range SocketSend \<union> {Connect (port env), RetryLater}"
proof (cases e)
  case (FileOpened path editor)
  then show ?thesis
    using jb_updateState_calls [of env s]
    by (auto simp: jb_listener_def jb_updateStateFromEditor_def split: option.splits)
next
  case (FileClosed path)
  then show ?thesis
    using jb_updateState_calls [of env s] by (auto simp: jb_listener_def)
next
  case (SelectionChanged newFile editor)
  then show ?thesis
    using jb_updateState_calls [of env s]
    by (auto simp: jb_listener_def jb_updateStateFromEditor_def split: option.splits)
next
  case (CaretPositionChanged path l c)
  then show ?thesis
    using jb_updateState_calls [of env s]
    by (auto simp: jb_listener_def jb_updateStateFromEditor_def)
next
  case (WindowGainedFocus focused editor path)
  then show ?thesis
    using jb_updateState_calls [of env "s\<lparr>VSCodeJetBrainsSyncService.isActive := True\<rparr>"]
    by (auto simp: jb_listener_def jb_updateStateFromEditor_def Let_def split: option.splits)
next
  case (WindowLostFocus editor path)
  then show ?thesis
    using jb_updateState_calls [of env "s\<lparr>VSCodeJetBrainsSyncService.isActive := False\<rparr>"]
    by (auto simp: jb_listener_def jb_updateStateFromEditor_def Let_def split: option.splits)
qed

lemma jb_deliver_calls:
  "set (snd (jb_deliver env s es)) \<subseteq> range SocketSend \<union> {Connect (port env), RetryLater}"
proof (induction es arbitrary: s)
  case Nil
  show ?case by simp
next
  case (Cons e es)
  obtain s1 out1 where l: "jb_listener env s e = (s1, out1)"
    by (cases "jb_listener env s e")
  have "set out1 \<subseteq> range SocketSend \<union> {Connect (port env), RetryLater}"
    using jb_listener_calls [of env s e] l by simp
  moreover have "set (snd (jb_deliver env s1 es)) \<subseteq> range SocketSend \<union> {Connect (port env), RetryLater}"
    by (rule Cons.IH)
  ultimately show ?case
    using l by (auto simp: Let_def split: prod.splits)
qed

lemma jb_perform_calls:
  "\<exists>s' rest. jb_perform env s c = (s', c # rest, throws env c) \<and>
     set rest \<subseteq> range SocketSend \<union> {Connect (port env), RetryLater}"
  using jb_deliver_calls [of env s "fires env c"]
  by (auto simp: jb_perform_def Let_def split: prod.splits)

text \<open>What Gson's reading of a frame yields.\<close>

lemma readInt_None: "readInt member = None \<longleftrightarrow> (\<exists>n. member = Some n \<and> \<not> fitsInt n)"
  by (auto simp: readInt_def split: option.splits)

lemma readInt_Some: "fitsInt n \<Longrightarrow> readInt (Some n) = Some n"
  by (simp add: readInt_def)

lemma fromJson_None:
  "fromJson (Object w) = None \<longleftrightarrow>
     readInt (wire.line w) = None \<or> readInt (wire.column w) = None"
  by (auto simp: fromJson_def split: option.splits)

lemma fromJson_Some:
  assumes "fromJson (Object w) = Some st"
  shows "EditorState.filePath st = wire.filePath w \<and>
     EditorState.source st = wire.source w \<and>
     EditorState.action st = wire.action w \<and>
     EditorState.isActive st = (wire.isActive w = Some True) \<and>
     readInt (wire.line w) = Some (EditorState.line st) \<and>
     readInt (wire.column w) = Some (EditorState.column st)"
  using assms by (auto simp: fromJson_def split: option.splits)




section \<open>The incoming filter\<close>

text \<open>
  Claim C4 (self-echo suppression). A message whose \<open>source\<close> is the receiving peer's own
  name is discarded: the session state is unchanged and no call is made, neither on the
  editor nor on the socket, and (JetBrains) nothing is queued. For the extension the
  name is \<open>vscode\<close>, for the plugin \<open>jetbrains\<close>.
\<close>

theorem incoming_self_echo_discarded:
  "(wire.source w = Some ''vscode'' \<longrightarrow> vs_onMessage env s (Object w) = (s, [])) \<and>
   (wire.source v = Some ''jetbrains'' \<longrightarrow> jb_onMessage t (Some (Object v)) = (t, []))"
proof (intro conjI impI)
  assume "wire.source w = Some ''vscode''"
  then show "vs_onMessage env s (Object w) = (s, [])"
    by (simp add: vs_onMessage_def vs_handleIncomingState_def)
next
  assume own: "wire.source v = Some ''jetbrains''"
  show "jb_onMessage t (Some (Object v)) = (t, [])"
  proof (cases "fromJson (Object v)")
    case None
    then show ?thesis by (simp add: jb_onMessage_def)
  next
    case (Some st)
    then have "EditorState.source st = Some ''jetbrains''"
      using fromJson_Some [of v st] own by simp
    then show ?thesis using Some by (simp add: jb_onMessage_def)
  qed
qed

theorem incoming_self_echo_discarded_witness:
  "wire.source (select_by ''vscode'' True) = Some ''vscode'' \<and>
   vs_onMessage calm_editor vs_linked (Object (select_by ''vscode'' True)) = (vs_linked, []) \<and>
   wire.source (close_by ''jetbrains'' False) = Some ''jetbrains'' \<and>
   jb_onMessage jb_linked (Some (Object (close_by ''jetbrains'' False))) = (jb_linked, [])"
  using incoming_self_echo_discarded [where w = "select_by ''vscode'' True" and env = calm_editor and s = vs_linked
      and v = "close_by ''jetbrains'' False" and t = jb_linked]
  by (simp add: select_by_def close_by_def)





text \<open>What the lookup of the close branch finds.\<close>

lemma find_SomeD: "find P xs = Some x \<Longrightarrow> x \<in> set xs \<and> P x"
  by (auto simp: find_Some_iff)

lemma editorToClose_Some:
  assumes "editorToClose env target = Some doc"
  shows "(doc \<in> set (textDocuments env) \<and> matchesDocument env target doc) \<or>
         (doc \<in> set (visibleTextEditors env) \<and> matchesEditor env target doc)"
  using assms
  by (auto simp: editorToClose_def find_Some_iff split: option.splits)

lemma editorToClose_None:
  "editorToClose env target = None \<longleftrightarrow>
     (\<forall>doc \<in> set (textDocuments env). \<not> matchesDocument env target doc) \<and>
     (\<forall>doc \<in> set (visibleTextEditors env). \<not> matchesEditor env target doc)"
  by (auto simp: editorToClose_def find_None_iff split: option.splits dest: find_SomeD)

lemma findTab_Some:
  "findTab env doc gs = Some t \<Longrightarrow> (\<exists>g \<in> set gs. t \<in> set g) \<and> matchesTab env doc t"
proof (induction gs)
  case Nil
  then show ?case by simp
next
  case (Cons g gs)
  show ?case
  proof (cases "find (matchesTab env doc) g")
    case None
    then show ?thesis using Cons by auto
  next
    case (Some t')
    then have "t' = t" using Cons.prems by simp
    then show ?thesis using Some by (auto simp: find_Some_iff)
  qed
qed

lemma findTab_None:
  "findTab env doc gs = None \<longleftrightarrow> (\<forall>g \<in> set gs. \<forall>t \<in> set g. \<not> matchesTab env doc t)"
  by (induction gs) (auto simp: find_None_iff split: option.splits dest: find_SomeD)

lemma matches_fold:
  assumes "matchesDocument env target doc \<or> matchesEditor env target doc"
    and "toString doc = toString target \<longrightarrow>
         toLowerCase env (fsPath doc) = toLowerCase env (fsPath target)"
  shows "toLowerCase env (fsPath doc) = toLowerCase env (fsPath target)"
  using assms by (auto simp: matchesDocument_def matchesEditor_def)

lemma tabToClose_Some:
  assumes "tabToClose env target = Some tab"
  shows "(\<exists>g \<in> set (tabGroups env). tab \<in> set g) \<and>
     (\<exists>u doc. input tab = Some u \<and>
        doc \<in> set (textDocuments env) \<union> set (visibleTextEditors env) \<and>
        (fsPath u = fsPath doc \<or>
         toLowerCase env (fsPath u) = toLowerCase env (fsPath doc)) \<and>
        (fsPath doc = fsPath target \<or> toString doc = toString target \<or>
         toLowerCase env (fsPath doc) = toLowerCase env (fsPath target)))"
proof -
  obtain doc where d: "editorToClose env target = Some doc"
    and t: "findTab env doc (tabGroups env) = Some tab"
    using assms by (auto simp: tabToClose_def split: option.splits)
  have m: "matchesTab env doc tab" and g: "\<exists>g \<in> set (tabGroups env). tab \<in> set g"
    using findTab_Some [OF t] by auto
  obtain u where u: "input tab = Some u"
    and mu: "fsPath u = fsPath doc \<or> toLowerCase env (fsPath u) = toLowerCase env (fsPath doc)"
    using m by (auto simp: matchesTab_def split: option.splits)
  have "doc \<in> set (textDocuments env) \<union> set (visibleTextEditors env) \<and>
      (fsPath doc = fsPath target \<or> toString doc = toString target \<or>
       toLowerCase env (fsPath doc) = toLowerCase env (fsPath target))"
    using editorToClose_Some [OF d] by (auto simp: matchesDocument_def matchesEditor_def)
  then show ?thesis using g u mu by blast
qed

lemma tabToClose_no_document:
  assumes "\<forall>doc \<in> set (textDocuments env).
      fsPath doc \<noteq> fsPath target \<and> toString doc \<noteq> toString target \<and>
      toLowerCase env (fsPath doc) \<noteq> toLowerCase env (fsPath target)"
    and "\<forall>doc \<in> set (visibleTextEditors env).
      fsPath doc \<noteq> fsPath target \<and>
      toLowerCase env (fsPath doc) \<noteq> toLowerCase env (fsPath target)"
  shows "tabToClose env target = None"
proof -
  have "editorToClose env target = None"
    unfolding editorToClose_None using assms
    by (auto simp: matchesDocument_def matchesEditor_def)
  then show ?thesis by (simp add: tabToClose_def)
qed

lemma tabToClose_no_tab:
  assumes tabs: "\<forall>g \<in> set (tabGroups env). \<forall>t \<in> set g. \<forall>u. input t = Some u \<longrightarrow>
      toLowerCase env (fsPath u) \<noteq> toLowerCase env (fsPath target)"
    and uris: "\<forall>doc \<in> set (textDocuments env). toString doc = toString target \<longrightarrow>
      toLowerCase env (fsPath doc) = toLowerCase env (fsPath target)"
  shows "tabToClose env target = None"
proof (cases "editorToClose env target")
  case None
  then show ?thesis by (simp add: tabToClose_def)
next
  case (Some doc)
  have f: "toLowerCase env (fsPath doc) = toLowerCase env (fsPath target)"
    using editorToClose_Some [OF Some] uris
    by (auto simp: matchesDocument_def matchesEditor_def)
  have "\<not> matchesTab env doc t" if "g \<in> set (tabGroups env)" and "t \<in> set g" for g t
  proof (cases "input t")
    case None
    then show ?thesis by (simp add: matchesTab_def)
  next
    case (Some u)
    then have "toLowerCase env (fsPath u) \<noteq> toLowerCase env (fsPath doc)"
      using tabs that f by metis
    then show ?thesis using Some by (auto simp: matchesTab_def)
  qed
  then have "\<forall>g \<in> set (tabGroups env). \<forall>t \<in> set g. \<not> matchesTab env doc t"
    by blast
  then have "findTab env doc (tabGroups env) = None"
    by (simp add: findTab_None)
  then show ?thesis using Some by (simp add: tabToClose_def)
qed

lemma tabToClose_present:
  assumes doc: "\<exists>doc \<in> set (textDocuments env). fsPath doc = fsPath target"
    and tab: "\<exists>g \<in> set (tabGroups env). \<exists>t \<in> set g. \<exists>u. input t = Some u \<and>
      fsPath u = fsPath target"
    and uris: "\<forall>doc \<in> set (textDocuments env). toString doc = toString target \<longrightarrow>
      toLowerCase env (fsPath doc) = toLowerCase env (fsPath target)"
  shows "\<exists>tab u. tabToClose env target = Some tab \<and> input tab = Some u \<and>
     toLowerCase env (fsPath u) = toLowerCase env (fsPath target)"
proof -
  have "editorToClose env target \<noteq> None"
    unfolding editorToClose_None using doc by (auto simp: matchesDocument_def)
  then obtain d where d: "editorToClose env target = Some d" by auto
  have f: "toLowerCase env (fsPath d) = toLowerCase env (fsPath target)"
    using editorToClose_Some [OF d] uris
    by (auto simp: matchesDocument_def matchesEditor_def)
  obtain g t u where "g \<in> set (tabGroups env)" "t \<in> set g" "input t = Some u"
    "fsPath u = fsPath target"
    using tab by blast
  moreover from this have "matchesTab env d t"
    using f by (simp add: matchesTab_def)
  ultimately have "\<exists>g \<in> set (tabGroups env). \<exists>t \<in> set g. matchesTab env d t"
    by blast
  then have "findTab env d (tabGroups env) \<noteq> None"
    by (simp add: findTab_None)
  then obtain tb where tb: "findTab env d (tabGroups env) = Some tb" by auto
  have "matchesTab env d tb" using findTab_Some [OF tb] by simp
  then obtain u' where "input tb = Some u'"
    "toLowerCase env (fsPath u') = toLowerCase env (fsPath target)"
    using f by (auto simp: matchesTab_def split: option.splits)
  then show ?thesis using d tb by (auto simp: tabToClose_def)
qed

text \<open>On the close branch neither handler reads \<open>isActive\<close>, unless closing the tab throws.\<close>

lemma vs_close_ignores_isActive:
  assumes "wire.source w \<noteq> Some ''vscode''" and "wire.action w = Some ''close''"
    and "wire.filePath w = Some p"
    and "tabToClose env (uriFile env p) = None \<or>
         (tabToClose env (uriFile env p) = Some tab \<and> \<not> rejects env (TabGroupsClose tab))"
  shows "vs_onMessage env s (Object (w\<lparr>wire.isActive := a\<rparr>)) = vs_onMessage env s (Object w)"
  using assms
  by (auto simp: vs_onMessage_def vs_handleIncomingState_def vs_applyClose_def vs_await_def
      Let_def split: prod.splits)

lemma jb_close_message:
  assumes "wire.source v \<noteq> Some ''jetbrains''" and "wire.action v = Some ''close''"
    and "fromJson (Object v) \<noteq> None"
  shows "jb_onMessage t (Some (Object v)) =
     (t\<lparr>VSCodeJetBrainsSyncService.isHandlingExternalUpdate := False\<rparr>,
      [InvokeLater (ApplyClose (wire.filePath v))])"
proof -
  obtain st where st: "fromJson (Object v) = Some st"
    using assms(3) by auto
  show ?thesis
    using assms(1,2) st fromJson_Some [OF st]
    by (simp add: jb_onMessage_def jb_handleIncomingState_def jb_invokeLater_def)
qed

lemma vs_close_rejected:
  assumes "wire.source w \<noteq> Some ''vscode''" and "wire.action w = Some ''close''"
    and "wire.filePath w = Some p" and "tabToClose env (uriFile env p) = Some tab"
    and "rejects env (TabGroupsClose tab)" and "during env (TabGroupsClose tab) = []"
  shows "snd (vs_onMessage env s (Object w)) =
     TabGroupsClose tab #
       (if wire.isActive w = Some True
        then snd (vs_applySelect env (s\<lparr>VSCodeJetBrainsSync.isHandlingExternalUpdate := True\<rparr>) w)
        else [])"
  using assms
  by (auto simp: vs_onMessage_def vs_handleIncomingState_def vs_applyClose_def vs_await_def
      Let_def split: prod.splits)


lemma jb_close_ignores_isActive:
  assumes "wire.source v \<noteq> Some ''jetbrains''" and "wire.action v = Some ''close''"
  shows "jb_onMessage t (Some (Object (v\<lparr>wire.isActive := a\<rparr>))) = jb_onMessage t (Some (Object v))"
  using assms
  by (auto simp: jb_onMessage_def fromJson_def jb_handleIncomingState_def
      split: option.splits)

text \<open>
  Claim C2 (close is unconditional). For a message of the other peer with
  \<open>action = close\<close>, whatever its \<open>isActive\<close>: when the extension finds a tab for the
  named file, its first call is closing that tab, and when that call succeeds (and no
  listener event arrives meanwhile) the handler ends there with the flag cleared and
  nothing else changed; when it finds no tab, it makes no call and ends with the flag
  cleared and nothing else changed. In these cases the result is the same for every
  value of \<open>isActive\<close>. The tab it finds is a tab of a tab group whose input has the path
  of an open document or visible editor (up to \<open>toLowerCase\<close>) that in turn has the
  named path (by \<open>fsPath\<close>, by URI string or up to \<open>toLowerCase\<close>). It finds none, and so
  makes no call, when no open document and no visible editor has the named path, and
  also when no tab has it up to \<open>toLowerCase\<close>; it finds one when a document and a tab
  with the named path are open. (The last two suppose that an open document with the
  URI string of the target has its path up to \<open>toLowerCase\<close>.) When closing the tab
  throws, the close has still been attempted, and the handler goes on to the check of
  \<open>isActive\<close> and the select branch. The plugin queues the close closure for the named
  path whatever \<open>isActive\<close> is; the closure makes no call and changes nothing when the
  platform does not find the file, and otherwise starts by closing it. No case raises
  an error: every result is an ordinary session state.
\<close>

theorem close_is_unconditional:
  "(wire.source w \<noteq> Some ''vscode'' \<and> wire.action w = Some ''close'' \<and>
    wire.filePath w = Some p \<longrightarrow>
      (tabToClose env (uriFile env p) = Some tab \<longrightarrow>
         (\<exists>rest. snd (vs_onMessage env s (Object w)) = TabGroupsClose tab # rest)) \<and>
      (tabToClose env (uriFile env p) = Some tab \<and> \<not> rejects env (TabGroupsClose tab) \<and>
       during env (TabGroupsClose tab) = [] \<longrightarrow>
         vs_onMessage env s (Object w) =
           (s\<lparr>VSCodeJetBrainsSync.isHandlingExternalUpdate := False\<rparr>, [TabGroupsClose tab])) \<and>
      (tabToClose env (uriFile env p) = None \<longrightarrow>
         vs_onMessage env s (Object w) =
           (s\<lparr>VSCodeJetBrainsSync.isHandlingExternalUpdate := False\<rparr>, [])) \<and>
      (tabToClose env (uriFile env p) = None \<or>
       tabToClose env (uriFile env p) = Some tab \<and> \<not> rejects env (TabGroupsClose tab) \<longrightarrow>
         vs_onMessage env s (Object (w\<lparr>wire.isActive := a\<rparr>)) =
           vs_onMessage env s (Object w)) \<and>
      (tabToClose env (uriFile env p) = Some tab \<and> rejects env (TabGroupsClose tab) \<and>
       during env (TabGroupsClose tab) = [] \<longrightarrow>
         snd (vs_onMessage env s (Object w)) =
           TabGroupsClose tab #
             (if wire.isActive w = Some True
              then snd (vs_applySelect env
                          (s\<lparr>VSCodeJetBrainsSync.isHandlingExternalUpdate := True\<rparr>) w)
              else []))) \<and>
   (tabToClose env target = Some tab \<longrightarrow>
      (\<exists>g \<in> set (tabGroups env). tab \<in> set g) \<and>
      (\<exists>u doc. input tab = Some u \<and>
         doc \<in> set (textDocuments env) \<union> set (visibleTextEditors env) \<and>
         (fsPath u = fsPath doc \<or>
          toLowerCase env (fsPath u) = toLowerCase env (fsPath doc)) \<and>
         (fsPath doc = fsPath target \<or> toString doc = toString target \<or>
          toLowerCase env (fsPath doc) = toLowerCase env (fsPath target)))) \<and>
   ((\<forall>doc \<in> set (textDocuments env).
        fsPath doc \<noteq> fsPath target \<and> toString doc \<noteq> toString target \<and>
        toLowerCase env (fsPath doc) \<noteq> toLowerCase env (fsPath target)) \<and>
    (\<forall>doc \<in> set (visibleTextEditors env).
        fsPath doc \<noteq> fsPath target \<and>
        toLowerCase env (fsPath doc) \<noteq> toLowerCase env (fsPath target)) \<longrightarrow>
      tabToClose env target = None) \<and>
   ((\<forall>doc \<in> set (textDocuments env). toString doc = toString target \<longrightarrow>
        toLowerCase env (fsPath doc) = toLowerCase env (fsPath target)) \<longrightarrow>
      ((\<forall>g \<in> set (tabGroups env). \<forall>t \<in> set g. \<forall>u. input t = Some u \<longrightarrow>
          toLowerCase env (fsPath u) \<noteq> toLowerCase env (fsPath target)) \<longrightarrow>
         tabToClose env target = None) \<and>
      ((\<exists>doc \<in> set (textDocuments env). fsPath doc = fsPath target) \<and>
       (\<exists>g \<in> set (tabGroups env). \<exists>t \<in> set g. \<exists>u. input t = Some u \<and>
          fsPath u = fsPath target) \<longrightarrow>
         (\<exists>found u. tabToClose env target = Some found \<and> input found = Some u \<and>
            toLowerCase env (fsPath u) = toLowerCase env (fsPath target)))) \<and>
   (wire.source v \<noteq> Some ''jetbrains'' \<and> wire.action v = Some ''close'' \<longrightarrow>
      (fromJson (Object v) \<noteq> None \<longrightarrow>
         jb_onMessage t (Some (Object v)) =
           (t\<lparr>VSCodeJetBrainsSyncService.isHandlingExternalUpdate := False\<rparr>,
            [InvokeLater (ApplyClose (wire.filePath v))])) \<and>
      jb_onMessage t (Some (Object (v\<lparr>wire.isActive := a\<rparr>))) =
        jb_onMessage t (Some (Object v))) \<and>
   (findFileByIoFile penv q = None \<longrightarrow>
      jb_runTask penv t' (ApplyClose (Some q)) = (t', [])) \<and>
   (findFileByIoFile penv q = Some vf \<longrightarrow>
      (\<exists>rest. snd (jb_runTask penv t' (ApplyClose (Some q))) = CloseFile vf # rest))"
proof -
  have vs: "(tabToClose env (uriFile env p) = Some tab \<longrightarrow>
         (\<exists>rest. snd (vs_onMessage env s (Object w)) = TabGroupsClose tab # rest)) \<and>
      (tabToClose env (uriFile env p) = Some tab \<and> \<not> rejects env (TabGroupsClose tab) \<and>
       during env (TabGroupsClose tab) = [] \<longrightarrow>
         vs_onMessage env s (Object w) =
           (s\<lparr>VSCodeJetBrainsSync.isHandlingExternalUpdate := False\<rparr>, [TabGroupsClose tab])) \<and>
      (tabToClose env (uriFile env p) = None \<longrightarrow>
         vs_onMessage env s (Object w) =
           (s\<lparr>VSCodeJetBrainsSync.isHandlingExternalUpdate := False\<rparr>, [])) \<and>
      (tabToClose env (uriFile env p) = None \<or>
       tabToClose env (uriFile env p) = Some tab \<and> \<not> rejects env (TabGroupsClose tab) \<longrightarrow>
         vs_onMessage env s (Object (w\<lparr>wire.isActive := a\<rparr>)) =
           vs_onMessage env s (Object w)) \<and>
      (tabToClose env (uriFile env p) = Some tab \<and> rejects env (TabGroupsClose tab) \<and>
       during env (TabGroupsClose tab) = [] \<longrightarrow>
         snd (vs_onMessage env s (Object w)) =
           TabGroupsClose tab #
             (if wire.isActive w = Some True
              then snd (vs_applySelect env
                          (s\<lparr>VSCodeJetBrainsSync.isHandlingExternalUpdate := True\<rparr>) w)
              else []))"
    if h: "wire.source w \<noteq> Some ''vscode'' \<and> wire.action w = Some ''close'' \<and>
      wire.filePath w = Some p"
  proof (intro conjI impI)
    let ?s = "s\<lparr>VSCodeJetBrainsSync.isHandlingExternalUpdate := True\<rparr>"
    show "\<exists>rest. snd (vs_onMessage env s (Object w)) = TabGroupsClose tab # rest"
      if found: "tabToClose env (uriFile env p) = Some tab"
    proof -
      obtain s' rest where a: "vs_await env ?s (TabGroupsClose tab) =
          (s', TabGroupsClose tab # rest, rejects env (TabGroupsClose tab))"
        using vs_await_calls [of env ?s "TabGroupsClose tab"] by blast
      show ?thesis
        using h found a
        by (auto simp: vs_onMessage_def vs_handleIncomingState_def vs_applyClose_def Let_def
            split: prod.splits)
    qed
    show "vs_onMessage env s (Object w) =
        (s\<lparr>VSCodeJetBrainsSync.isHandlingExternalUpdate := False\<rparr>, [TabGroupsClose tab])"
      if "tabToClose env (uriFile env p) = Some tab \<and> \<not> rejects env (TabGroupsClose tab) \<and>
         during env (TabGroupsClose tab) = []"
      using h that
      by (simp add: vs_onMessage_def vs_handleIncomingState_def vs_applyClose_def vs_await_def)
    show "vs_onMessage env s (Object w) =
        (s\<lparr>VSCodeJetBrainsSync.isHandlingExternalUpdate := False\<rparr>, [])"
      if "tabToClose env (uriFile env p) = None"
      using h that
      by (simp add: vs_onMessage_def vs_handleIncomingState_def vs_applyClose_def)
    show "vs_onMessage env s (Object (w\<lparr>wire.isActive := a\<rparr>)) = vs_onMessage env s (Object w)"
      if "tabToClose env (uriFile env p) = None \<or>
         tabToClose env (uriFile env p) = Some tab \<and> \<not> rejects env (TabGroupsClose tab)"
      using h that
        vs_close_ignores_isActive [where w = w and p = p and env = env and tab = tab and a = a and s = s]
      by blast
    show "snd (vs_onMessage env s (Object w)) =
        TabGroupsClose tab #
          (if wire.isActive w = Some True
           then snd (vs_applySelect env ?s w)
           else [])"
      if "tabToClose env (uriFile env p) = Some tab \<and> rejects env (TabGroupsClose tab) \<and>
         during env (TabGroupsClose tab) = []"
      using h that
        vs_close_rejected [where w = w and p = p and env = env and tab = tab and s = s]
      by blast
  qed
  have found: "tabToClose env target = Some tab \<longrightarrow>
      (\<exists>g \<in> set (tabGroups env). tab \<in> set g) \<and>
      (\<exists>u doc. input tab = Some u \<and>
         doc \<in> set (textDocuments env) \<union> set (visibleTextEditors env) \<and>
         (fsPath u = fsPath doc \<or>
          toLowerCase env (fsPath u) = toLowerCase env (fsPath doc)) \<and>
         (fsPath doc = fsPath target \<or> toString doc = toString target \<or>
          toLowerCase env (fsPath doc) = toLowerCase env (fsPath target)))"
    using tabToClose_Some [of env target tab] by blast
  have nodoc: "(\<forall>doc \<in> set (textDocuments env).
        fsPath doc \<noteq> fsPath target \<and> toString doc \<noteq> toString target \<and>
        toLowerCase env (fsPath doc) \<noteq> toLowerCase env (fsPath target)) \<and>
    (\<forall>doc \<in> set (visibleTextEditors env).
        fsPath doc \<noteq> fsPath target \<and>
        toLowerCase env (fsPath doc) \<noteq> toLowerCase env (fsPath target)) \<longrightarrow>
      tabToClose env target = None"
    using tabToClose_no_document [of env target] by blast
  have tabs: "((\<forall>g \<in> set (tabGroups env). \<forall>t \<in> set g. \<forall>u. input t = Some u \<longrightarrow>
          toLowerCase env (fsPath u) \<noteq> toLowerCase env (fsPath target)) \<longrightarrow>
         tabToClose env target = None) \<and>
      ((\<exists>doc \<in> set (textDocuments env). fsPath doc = fsPath target) \<and>
       (\<exists>g \<in> set (tabGroups env). \<exists>t \<in> set g. \<exists>u. input t = Some u \<and>
          fsPath u = fsPath target) \<longrightarrow>
         (\<exists>found u. tabToClose env target = Some found \<and> input found = Some u \<and>
            toLowerCase env (fsPath u) = toLowerCase env (fsPath target)))"
    if "\<forall>doc \<in> set (textDocuments env). toString doc = toString target \<longrightarrow>
        toLowerCase env (fsPath doc) = toLowerCase env (fsPath target)"
    using that tabToClose_no_tab [of env target] tabToClose_present [of env target]
    by blast
  have jb: "(fromJson (Object v) \<noteq> None \<longrightarrow>
         jb_onMessage t (Some (Object v)) =
           (t\<lparr>VSCodeJetBrainsSyncService.isHandlingExternalUpdate := False\<rparr>,
            [InvokeLater (ApplyClose (wire.filePath v))])) \<and>
      jb_onMessage t (Some (Object (v\<lparr>wire.isActive := a\<rparr>))) =
        jb_onMessage t (Some (Object v))"
    if "wire.source v \<noteq> Some ''jetbrains'' \<and> wire.action v = Some ''close''"
    using that jb_close_message [where v = v and t = t]
      jb_close_ignores_isActive [where v = v and a = a and t = t]
    by blast
  have none: "findFileByIoFile penv q = None \<longrightarrow>
      jb_runTask penv t' (ApplyClose (Some q)) = (t', [])"
    by (simp add: jb_runTask_def jb_applyClose_def)
  have some: "findFileByIoFile penv q = Some vf \<longrightarrow>
      (\<exists>rest. snd (jb_runTask penv t' (ApplyClose (Some q))) = CloseFile vf # rest)"
  proof
    assume f: "findFileByIoFile penv q = Some vf"
    obtain s' rest where "jb_perform penv t' (CloseFile vf) =
        (s', CloseFile vf # rest, throws penv (CloseFile vf))"
      using jb_perform_calls by blast
    then show "\<exists>rest. snd (jb_runTask penv t' (ApplyClose (Some q))) = CloseFile vf # rest"
      using f by (simp add: jb_runTask_def jb_applyClose_def)
  qed
  show ?thesis
    using vs found nodoc tabs jb none some by blast
qed

lemma asciiLower_paths:
  "asciiLower ''/x.py'' = ''/x.py''" "asciiLower ''/y.py'' = ''/y.py''"
  by code_simp+

lemma tabToClose_showing:
  "tabToClose editor_showing (file_uri ''/x.py'') = Some (tab_of ''/x.py'')"
  by (simp add: tabToClose_def editorToClose_def editor_showing_def calm_editor_def
      matchesDocument_def matchesEditor_def matchesTab_def tab_of_def file_uri_def
      asciiLower_paths)

lemma tabToClose_elsewhere:
  "tabToClose editor_elsewhere (file_uri ''/x.py'') = None"
  by (simp add: tabToClose_def editorToClose_def editor_elsewhere_def calm_editor_def
      matchesDocument_def matchesEditor_def matchesTab_def tab_of_def file_uri_def
      asciiLower_paths)

theorem close_is_unconditional_witness:
  "vs_onMessage editor_showing vs_linked (Object (close_by ''jetbrains'' False)) =
     (vs_linked, [TabGroupsClose (tab_of ''/x.py'')]) \<and>
   vs_onMessage editor_elsewhere vs_linked (Object (close_by ''jetbrains'' False)) =
     (vs_linked, []) \<and>
   vs_onMessage editor_showing vs_linked (Object (close_by ''jetbrains'' True)) =
     vs_onMessage editor_showing vs_linked (Object (close_by ''jetbrains'' False)) \<and>
   (\<exists>u. input (tab_of ''/x.py'') = Some u \<and> fsPath u = ''/x.py'') \<and>
   jb_onMessage jb_linked (Some (Object (close_by ''vscode'' False))) =
     (jb_linked, [InvokeLater (ApplyClose (Some ''/x.py''))]) \<and>
   jb_runTask (calm_platform\<lparr>findFileByIoFile := (\<lambda>p. None)\<rparr>) jb_linked
       (ApplyClose (Some ''/x.py'')) = (jb_linked, []) \<and>
   (\<exists>rest. snd (jb_runTask calm_platform jb_linked (ApplyClose (Some ''/x.py''))) =
      CloseFile ''/x.py'' # rest)"
proof -
  note a = close_is_unconditional
      [where w = "close_by ''jetbrains'' False" and p = "''/x.py''" and env = editor_showing
         and s = vs_linked and v = "close_by ''vscode'' False" and t = jb_linked
         and tab = "tab_of ''/x.py''" and target = "file_uri ''/x.py''"
         and penv = calm_platform and q = "''/x.py''" and vf = "''/x.py''" and t' = jb_linked
         and a = "Some True"]
  note b = close_is_unconditional
      [where w = "close_by ''jetbrains'' False" and p = "''/x.py''" and env = editor_elsewhere
         and s = vs_linked and v = "close_by ''vscode'' False" and t = jb_linked
         and tab = "tab_of ''/x.py''" and target = "file_uri ''/x.py''"
         and penv = "calm_platform\<lparr>findFileByIoFile := (\<lambda>p. None)\<rparr>"
         and q = "''/x.py''" and vf = "''/x.py''" and t' = jb_linked and a = "Some True"]
  have msg: "wire.source (close_by ''jetbrains'' False) \<noteq> Some ''vscode'' \<and>
      wire.action (close_by ''jetbrains'' False) = Some ''close'' \<and>
      wire.filePath (close_by ''jetbrains'' False) = Some ''/x.py''"
    and msg': "wire.source (close_by ''vscode'' False) \<noteq> Some ''jetbrains'' \<and>
      wire.action (close_by ''vscode'' False) = Some ''close''"
    and dec: "fromJson (Object (close_by ''vscode'' False)) \<noteq> None"
    and fp: "wire.filePath (close_by ''vscode'' False) = Some ''/x.py''"
    and act: "(close_by ''jetbrains'' False)\<lparr>wire.isActive := Some True\<rparr> = close_by ''jetbrains'' True"
    by (simp_all add: close_by_def fromJson_def readInt_def fitsInt_def)
  have e1: "uriFile editor_showing ''/x.py'' = file_uri ''/x.py''"
    and e2: "uriFile editor_elsewhere ''/x.py'' = file_uri ''/x.py''"
    and e3: "\<not> rejects editor_showing (TabGroupsClose (tab_of ''/x.py''))"
    and e4: "during editor_showing (TabGroupsClose (tab_of ''/x.py'')) = []"
    by (simp_all add: editor_showing_def editor_elsewhere_def calm_editor_def)
  have flag: "vs_linked\<lparr>VSCodeJetBrainsSync.isHandlingExternalUpdate := False\<rparr> = vs_linked"
    and flag': "jb_linked\<lparr>VSCodeJetBrainsSyncService.isHandlingExternalUpdate := False\<rparr> = jb_linked"
    by (simp_all add: vs_linked_def jb_linked_def)
  have c1: "vs_onMessage editor_showing vs_linked (Object (close_by ''jetbrains'' False)) =
      (vs_linked, [TabGroupsClose (tab_of ''/x.py'')])"
    using a msg e1 e3 e4 tabToClose_showing flag by simp
  have c2: "vs_onMessage editor_elsewhere vs_linked (Object (close_by ''jetbrains'' False)) =
      (vs_linked, [])"
    using b msg e2 tabToClose_elsewhere flag by simp
  have c3: "vs_onMessage editor_showing vs_linked (Object (close_by ''jetbrains'' True)) =
      vs_onMessage editor_showing vs_linked (Object (close_by ''jetbrains'' False))"
    using a msg e1 e3 tabToClose_showing act by simp
  have c4: "\<exists>u. input (tab_of ''/x.py'') = Some u \<and> fsPath u = ''/x.py''"
    by (simp add: tab_of_def file_uri_def)
  have c5: "jb_onMessage jb_linked (Some (Object (close_by ''vscode'' False))) =
      (jb_linked, [InvokeLater (ApplyClose (Some ''/x.py''))])"
    using a msg' dec fp flag' by simp
  have c6: "jb_runTask (calm_platform\<lparr>findFileByIoFile := (\<lambda>p. None)\<rparr>) jb_linked
       (ApplyClose (Some ''/x.py'')) = (jb_linked, [])"
    using b by simp
  have c7: "\<exists>rest. snd (jb_runTask calm_platform jb_linked (ApplyClose (Some ''/x.py''))) =
      CloseFile ''/x.py'' # rest"
    using a by (simp add: calm_platform_def)
  show ?thesis
    using c1 c2 c3 c4 c5 c6 c7 by blast
qed


section \<open>The outgoing filter\<close>

text \<open>
  No step of the plugin leaves \<open>isHandlingExternalUpdate\<close> set: only
  \<open>handleIncomingState\<close> sets it, and it clears it again before it returns.
\<close>

lemma jb_connectWebSocket_flag:
  "VSCodeJetBrainsSyncService.isHandlingExternalUpdate (fst (jb_connectWebSocket env s)) =
     VSCodeJetBrainsSyncService.isHandlingExternalUpdate s"
  by (simp add: jb_connectWebSocket_def Let_def)

lemma jb_updateState_flag:
  "VSCodeJetBrainsSyncService.isHandlingExternalUpdate (fst (jb_updateState env s st)) =
     VSCodeJetBrainsSyncService.isHandlingExternalUpdate s"
  by (simp add: jb_updateState_def jb_connectWebSocket_flag split: option.splits)

lemma jb_listener_flag:
  "VSCodeJetBrainsSyncService.isHandlingExternalUpdate (fst (jb_listener env s e)) =
     VSCodeJetBrainsSyncService.isHandlingExternalUpdate s"
  by (cases e)
    (simp_all add: jb_listener_def jb_updateStateFromEditor_def jb_updateState_flag Let_def
      split: option.splits)

lemma jb_deliver_flag:
  "VSCodeJetBrainsSyncService.isHandlingExternalUpdate (fst (jb_deliver env s es)) =
     VSCodeJetBrainsSyncService.isHandlingExternalUpdate s"
proof (induction es arbitrary: s)
  case Nil
  show ?case by simp
next
  case (Cons e es)
  obtain s1 out1 where l: "jb_listener env s e = (s1, out1)"
    by (cases "jb_listener env s e")
  have "VSCodeJetBrainsSyncService.isHandlingExternalUpdate s1 =
      VSCodeJetBrainsSyncService.isHandlingExternalUpdate s"
    using jb_listener_flag [of env s e] l by simp
  then show ?case
    using l Cons.IH [of s1] by (auto simp: Let_def split: prod.splits)
qed

lemma jb_perform_flag:
  "VSCodeJetBrainsSyncService.isHandlingExternalUpdate (fst (jb_perform env s c)) =
     VSCodeJetBrainsSyncService.isHandlingExternalUpdate s"
  using jb_deliver_flag [of env s "fires env c"]
  by (auto simp: jb_perform_def Let_def split: prod.splits)

lemma jb_runTask_flag:
  "VSCodeJetBrainsSyncService.isHandlingExternalUpdate (fst (jb_runTask env s t)) =
     VSCodeJetBrainsSyncService.isHandlingExternalUpdate s"
proof (cases t)
  case (ApplyClose path)
  show ?thesis
  proof (cases "path")
    case None
    then show ?thesis using ApplyClose by (simp add: jb_runTask_def jb_applyClose_def)
  next
    case (Some p)
    show ?thesis
    proof (cases "findFileByIoFile env p")
      case None
      then show ?thesis using ApplyClose Some by (simp add: jb_runTask_def jb_applyClose_def)
    next
      case (Some vf)
      then show ?thesis
        using ApplyClose \<open>path = Some p\<close> jb_perform_flag [of env s "CloseFile vf"]
        by (auto simp: jb_runTask_def jb_applyClose_def Let_def split: prod.splits)
    qed
  qed
next
  case (ApplySelect path l c)
  show ?thesis
  proof (cases "path")
    case None
    then show ?thesis using ApplySelect by (simp add: jb_runTask_def jb_applySelect_def)
  next
    case (Some p)
    show ?thesis
    proof (cases "findFileByIoFile env p")
      case None
      then show ?thesis using ApplySelect Some by (simp add: jb_runTask_def jb_applySelect_def)
    next
      case vf: (Some vf)
      obtain s1 o1 r1 where p1: "jb_perform env s (OpenFile vf) = (s1, o1, r1)"
        by (cases "jb_perform env s (OpenFile vf)")
      have f1: "VSCodeJetBrainsSyncService.isHandlingExternalUpdate s1 =
          VSCodeJetBrainsSyncService.isHandlingExternalUpdate s"
        using jb_perform_flag [of env s "OpenFile vf"] p1 by simp
      have step: "VSCodeJetBrainsSyncService.isHandlingExternalUpdate
            (fst (let (s2, out2, threw2) = jb_perform env x (MoveToLogicalPosition vf l c)
                  in if threw2 then (s2, pre @ out2)
                     else if visibleAreaContains env vf l c then (s2, pre @ out2)
                     else let (s3, out3, threw3) = jb_perform env s2 (ScrollToCaret vf)
                          in (s3, pre @ out2 @ out3))) =
          VSCodeJetBrainsSyncService.isHandlingExternalUpdate x" for x pre
      proof -
        obtain s2 o2 r2 where p2: "jb_perform env x (MoveToLogicalPosition vf l c) = (s2, o2, r2)"
          by (cases "jb_perform env x (MoveToLogicalPosition vf l c)")
        obtain s3 o3 r3 where p3: "jb_perform env s2 (ScrollToCaret vf) = (s3, o3, r3)"
          by (cases "jb_perform env s2 (ScrollToCaret vf)")
        have "VSCodeJetBrainsSyncService.isHandlingExternalUpdate s2 =
            VSCodeJetBrainsSyncService.isHandlingExternalUpdate x"
          using jb_perform_flag [of env x "MoveToLogicalPosition vf l c"] p2 by simp
        moreover have "VSCodeJetBrainsSyncService.isHandlingExternalUpdate s3 =
            VSCodeJetBrainsSyncService.isHandlingExternalUpdate s2"
          using jb_perform_flag [of env s2 "ScrollToCaret vf"] p3 by simp
        ultimately show ?thesis using p2 p3 by simp
      qed
      show ?thesis
        using ApplySelect Some vf p1 f1 step [of s "[]"] step [of s1 o1]
        by (simp add: jb_runTask_def jb_applySelect_def)
    qed
  qed
qed

lemma jb_onMessage_flag:
  assumes "\<not> VSCodeJetBrainsSyncService.isHandlingExternalUpdate s"
  shows "\<not> VSCodeJetBrainsSyncService.isHandlingExternalUpdate (fst (jb_onMessage s m))"
  using assms
  by (auto simp: jb_onMessage_def jb_handleIncomingState_def jb_invokeLater_def
      split: option.splits)

lemma jb_do_flag:
  assumes "\<not> VSCodeJetBrainsSyncService.isHandlingExternalUpdate s"
  shows "\<not> VSCodeJetBrainsSyncService.isHandlingExternalUpdate (jb_do env s step)"
proof (cases step)
  case DoToggle
  then show ?thesis
    using assms
    by (simp add: jb_do_def jb_toggleAutoReconnect_def jb_connectWebSocket_flag Let_def)
next
  case (DoMessage m)
  then show ?thesis using assms jb_onMessage_flag by (simp add: jb_do_def)
next
  case (DoEvent e)
  then show ?thesis using assms by (simp add: jb_do_def jb_listener_flag)
next
  case (DoClosure t)
  then show ?thesis using assms by (simp add: jb_do_def jb_runTask_flag)
next
  case DoRetry
  then show ?thesis using assms by (simp add: jb_do_def jb_connectWebSocket_flag)
next
  case (DoOnOpen editor path)
  then show ?thesis
    using assms
    by (simp add: jb_do_def jb_onOpen_def jb_updateStateFromEditor_def jb_updateState_flag
        Let_def split: option.splits)
next
  case DoOnClose
  then show ?thesis using assms by (simp add: jb_do_def jb_onClose_def Let_def)
next
  case DoOnError
  then show ?thesis using assms by (simp add: jb_do_def jb_onError_def)
next
  case DoConnectFailed
  then show ?thesis using assms by (simp add: jb_do_def jb_connectFailed_def)
next
  case DoRestart
  then show ?thesis
    using assms
      jb_connectWebSocket_flag [of env
        "s\<lparr>webSocket := None, VSCodeJetBrainsSyncService.isConnected := False\<rparr>"]
    by (auto simp: jb_do_def jb_restartConnection_def Let_def split: prod.splits)
next
  case (DoClientOpen b)
  then show ?thesis using assms by (simp add: jb_do_def)
qed

lemma jb_run_flag:
  "\<not> VSCodeJetBrainsSyncService.isHandlingExternalUpdate s \<Longrightarrow>
   \<not> VSCodeJetBrainsSyncService.isHandlingExternalUpdate (jb_run s steps)"
proof (induction steps arbitrary: s)
  case Nil
  then show ?case by simp
next
  case (Cons x steps)
  obtain env step where x: "x = (env, step)" by (cases x)
  show ?case
    using Cons.prems x by (simp add: Cons.IH jb_do_flag)
qed

lemma jb_after_flag:
  "\<not> VSCodeJetBrainsSyncService.isHandlingExternalUpdate (jb_after steps)"
  by (simp add: jb_after_def jb_run_flag jb_initial_def)

text \<open>
  Claim C3 (outgoing gating). With an open connection, \<open>updateState\<close> of the extension,
  in any session state, and \<open>updateState\<close> of the plugin, in any state the plugin
  reaches, send the candidate exactly when its action is \<open>close\<close> or the local peer is
  active; the session of the plugin is unchanged and that of the extension has only
  recorded the candidate.
\<close>

theorem outgoing_filter:
  "(jetbrainsClient s = Some OPEN \<longrightarrow>
      vs_updateState s st =
        (s\<lparr>currentState := Some st\<rparr>,
         if SyncState.action st = close \<or> VSCodeJetBrainsSync.isActive s
         then [Send (stringify st)] else [])) \<and>
   (webSocket (jb_after steps) = Some client \<and> isOpen client \<longrightarrow>
      jb_updateState penv (jb_after steps) est =
        (jb_after steps,
         if EditorState.action est = Some ''close'' \<or>
            VSCodeJetBrainsSyncService.isActive (jb_after steps)
         then [SocketSend (toJson est)] else []))"
  using jb_after_flag [of steps] by (simp add: vs_updateState_def jb_updateState_def)

lemma connecting_run_state: "jb_after connecting_run = jb_linked"
  by (simp add: jb_after_def connecting_run_def jb_do_def jb_toggleAutoReconnect_def
      jb_connectWebSocket_def jb_onOpen_def jb_listener_def jb_initial_def jb_linked_def
      calm_platform_def Let_def)

theorem outgoing_filter_witness:
  "vs_updateState vs_linked vs_select_candidate =
     (vs_linked\<lparr>currentState := Some vs_select_candidate\<rparr>,
      [Send (stringify vs_select_candidate)]) \<and>
   webSocket (jb_after connecting_run) = Some \<lparr>isOpen = True\<rparr> \<and>
   jb_updateState calm_platform (jb_after connecting_run) jb_close_candidate =
     (jb_after connecting_run, [SocketSend (toJson jb_close_candidate)])"
  using outgoing_filter [where s = vs_linked and st = vs_select_candidate
      and steps = connecting_run and client = "\<lparr>isOpen = True\<rparr>" and penv = calm_platform
      and est = jb_close_candidate]
    connecting_run_state
  by (simp add: vs_linked_def jb_linked_def jb_close_candidate_def)


text \<open>
  Claim C10 (the extension records every candidate). \<open>updateState\<close> stores its argument
  as \<open>currentState\<close> whatever the transmission decision is, and the next change of the
  window's focus re-submits exactly that state, with \<open>isActive\<close> set to the new focus
  and \<open>source\<close> to \<open>vscode\<close>.
\<close>

theorem updateState_records_last_state:
  "currentState (fst (vs_updateState s st)) = Some st \<and>
   vs_listener (fst (vs_updateState s st)) (DidChangeWindowState focused) =
     vs_updateState
       ((fst (vs_updateState s st))\<lparr>VSCodeJetBrainsSync.isActive := focused\<rparr>)
       (st\<lparr>SyncState.isActive := focused, SyncState.source := vscode\<rparr>)"
  by (simp add: vs_updateState_def vs_listener_def Let_def)

text \<open>
  Claim C8 (focus-change re-broadcast), as amended. With an open connection: when the
  window of the extension changes focus and a last state exists, that state, with
  \<open>isActive\<close> set to the new focus and \<open>source\<close> to \<open>vscode\<close>, becomes the current
  state and is sent when the window gained focus or the state's action is \<open>close\<close>; a
  \<open>select\<close> state is not sent when the window lost focus. The plugin keeps no last
  state: on gaining focus it sends the file and caret of the selected editor with
  \<open>isActive = true\<close>, on losing focus it sends nothing.
\<close>

theorem focus_change_rebroadcast:
  "(jetbrainsClient s = Some OPEN \<and> currentState s = Some cs \<longrightarrow>
      vs_listener s (DidChangeWindowState focused) =
        (s\<lparr>VSCodeJetBrainsSync.isActive := focused,
            currentState := Some (cs\<lparr>SyncState.isActive := focused, SyncState.source := vscode\<rparr>)\<rparr>,
         if focused \<or> SyncState.action cs = close
         then [Send (stringify (cs\<lparr>SyncState.isActive := focused, SyncState.source := vscode\<rparr>))]
         else [])) \<and>
   (webSocket t = Some client \<and> isOpen client \<and>
    \<not> VSCodeJetBrainsSyncService.isHandlingExternalUpdate t \<longrightarrow>
      jb_listener penv t (WindowGainedFocus True (Some (l, c)) (Some f)) =
        (t\<lparr>VSCodeJetBrainsSyncService.isActive := True\<rparr>,
         [SocketSend \<lparr> wire.filePath = Some f, wire.line = Some l, wire.column = Some c,
                       wire.source = Some ''jetbrains'', wire.isActive = Some True,
                       wire.action = Some ''select'' \<rparr>]) \<and>
      jb_listener penv t (WindowLostFocus (Some (l, c)) (Some f)) =
        (t\<lparr>VSCodeJetBrainsSyncService.isActive := False\<rparr>, []))"
  by (auto simp: vs_listener_def vs_updateState_def jb_listener_def jb_updateStateFromEditor_def
      jb_updateState_def toJson_def Let_def)

theorem focus_change_rebroadcast_witness:
  "vs_listener (vs_linked\<lparr>VSCodeJetBrainsSync.isActive := False,
                           currentState := Some vs_select_candidate\<rparr>)
     (DidChangeWindowState True) =
     (vs_linked\<lparr>currentState := Some vs_select_candidate\<rparr>,
      [Send (stringify vs_select_candidate)]) \<and>
   jb_listener calm_platform (jb_linked\<lparr>VSCodeJetBrainsSyncService.isActive := False\<rparr>)
     (WindowGainedFocus True (Some (10, 4)) (Some ''/x.py'')) =
     (jb_linked, [SocketSend (select_by ''jetbrains'' True)]) \<and>
   jb_listener calm_platform jb_linked (WindowLostFocus (Some (10, 4)) (Some ''/x.py'')) =
     (jb_linked\<lparr>VSCodeJetBrainsSyncService.isActive := False\<rparr>, [])"
  using focus_change_rebroadcast
      [where s = "vs_linked\<lparr>VSCodeJetBrainsSync.isActive := False,
                             currentState := Some vs_select_candidate\<rparr>"
         and cs = vs_select_candidate and focused = True
         and t = "jb_linked\<lparr>VSCodeJetBrainsSyncService.isActive := False\<rparr>"
         and client = "\<lparr>isOpen = True\<rparr>" and penv = calm_platform
         and l = 10 and c = 4 and f = "''/x.py''"]
    focus_change_rebroadcast
      [where s = "vs_linked\<lparr>currentState := Some vs_select_candidate\<rparr>"
         and cs = vs_select_candidate and focused = False
         and t = jb_linked
         and client = "\<lparr>isOpen = True\<rparr>" and penv = calm_platform
         and l = 10 and c = 4 and f = "''/x.py''"]
  by (simp add: vs_linked_def jb_linked_def vs_select_candidate_def select_by_def)

theorem focus_change_rebroadcast_counterexample:
  "jetbrainsClient (vs_linked\<lparr>currentState := Some vs_select_candidate\<rparr>) = Some OPEN \<and>
   VSCodeJetBrainsSync.isActive (vs_linked\<lparr>currentState := Some vs_select_candidate\<rparr>) \<and>
   snd (vs_listener (vs_linked\<lparr>currentState := Some vs_select_candidate\<rparr>)
          (DidChangeWindowState False)) = []"
  by (simp add: vs_listener_def vs_updateState_def vs_linked_def vs_select_candidate_def Let_def)

section \<open>The toggle\<close>

text \<open>
  Claim C9 (the enable/disable toggle), as amended. The toggle inverts the enabled flag
  every time. From an enabled session it leads to the disabled one: the extension
  closes the client socket and the server it has, the plugin closes its socket if that
  is open, and neither is connected afterwards. From a disabled session it enables
  sync and starts connecting: the extension closes a server it still has and creates
  one listening on the configured port, unless the port is above 65535, where creating
  it throws and sync stays enabled without a new server; the plugin sets
  \<open>isReconnecting\<close> and starts a client, or schedules a retry when it cannot create
  one. Two toggles restore the enabled flag, so the second toggle undoes the first
  instead of repeating it.
\<close>

theorem toggle_flips:
  "VSCodeJetBrainsSync.autoReconnect (fst (vs_toggleAutoReconnect env s)) =
     (\<not> VSCodeJetBrainsSync.autoReconnect s) \<and>
   (VSCodeJetBrainsSync.autoReconnect s \<longrightarrow>
      vs_toggleAutoReconnect env s =
        (s\<lparr>VSCodeJetBrainsSync.autoReconnect := False, jetbrainsClient := None, wss := None,
            VSCodeJetBrainsSync.isConnected := False\<rparr>,
         (if jetbrainsClient s \<noteq> None then [ClientClose] else []) @
         (if wss s \<noteq> None then [ServerClose] else []),
         False)) \<and>
   (\<not> VSCodeJetBrainsSync.autoReconnect s \<and> configuredPort env \<le> 65535 \<longrightarrow>
      vs_toggleAutoReconnect env s =
        (s\<lparr>VSCodeJetBrainsSync.autoReconnect := True, wss := Some (configuredPort env)\<rparr>,
         (if wss s \<noteq> None then [ServerClose] else []) @ [ServerListen (configuredPort env)],
         False)) \<and>
   (\<not> VSCodeJetBrainsSync.autoReconnect s \<and> configuredPort env > 65535 \<longrightarrow>
      vs_toggleAutoReconnect env s =
        (s\<lparr>VSCodeJetBrainsSync.autoReconnect := True\<rparr>,
         (if wss s \<noteq> None then [ServerClose] else []),
         True)) \<and>
   VSCodeJetBrainsSync.autoReconnect
     (fst (vs_toggleAutoReconnect env' (fst (vs_toggleAutoReconnect env s)))) =
     VSCodeJetBrainsSync.autoReconnect s \<and>
   VSCodeJetBrainsSyncService.autoReconnect (fst (jb_toggleAutoReconnect penv t)) =
     (\<not> VSCodeJetBrainsSyncService.autoReconnect t) \<and>
   (VSCodeJetBrainsSyncService.autoReconnect t \<longrightarrow>
      jb_toggleAutoReconnect penv t =
        (t\<lparr>VSCodeJetBrainsSyncService.autoReconnect := False, webSocket := None,
            VSCodeJetBrainsSyncService.isConnected := False, isReconnecting := False\<rparr>,
         (case webSocket t of
            None \<Rightarrow> []
          | Some client \<Rightarrow> if isOpen client then [SocketClose] else []))) \<and>
   (\<not> VSCodeJetBrainsSyncService.autoReconnect t \<and> \<not> clientThrows penv \<longrightarrow>
      jb_toggleAutoReconnect penv t =
        (t\<lparr>VSCodeJetBrainsSyncService.autoReconnect := True, isReconnecting := True,
            webSocket := Some \<lparr>isOpen = False\<rparr>\<rparr>,
         [Connect (port penv)])) \<and>
   (\<not> VSCodeJetBrainsSyncService.autoReconnect t \<and> clientThrows penv \<longrightarrow>
      jb_toggleAutoReconnect penv t =
        (t\<lparr>VSCodeJetBrainsSyncService.autoReconnect := True, isReconnecting := True,
            VSCodeJetBrainsSyncService.isConnected := False\<rparr>,
         [RetryLater])) \<and>
   VSCodeJetBrainsSyncService.autoReconnect
     (fst (jb_toggleAutoReconnect penv' (fst (jb_toggleAutoReconnect penv t)))) =
     VSCodeJetBrainsSyncService.autoReconnect t"
proof -
  have v1: "\<And>e x. VSCodeJetBrainsSync.autoReconnect (fst (vs_toggleAutoReconnect e x)) =
      (\<not> VSCodeJetBrainsSync.autoReconnect x)"
    by (auto simp: vs_toggleAutoReconnect_def vs_setupServer_def Let_def split: prod.splits)
  have j1: "\<And>e x. VSCodeJetBrainsSyncService.autoReconnect (fst (jb_toggleAutoReconnect e x)) =
      (\<not> VSCodeJetBrainsSyncService.autoReconnect x)"
    by (auto simp: jb_toggleAutoReconnect_def jb_connectWebSocket_def Let_def)
  have v2: "VSCodeJetBrainsSync.autoReconnect s \<longrightarrow>
      vs_toggleAutoReconnect env s =
        (s\<lparr>VSCodeJetBrainsSync.autoReconnect := False, jetbrainsClient := None, wss := None,
            VSCodeJetBrainsSync.isConnected := False\<rparr>,
         (if jetbrainsClient s \<noteq> None then [ClientClose] else []) @
         (if wss s \<noteq> None then [ServerClose] else []),
         False)"
    by (auto simp: vs_toggleAutoReconnect_def Let_def)
  have v3: "\<not> VSCodeJetBrainsSync.autoReconnect s \<and> configuredPort env \<le> 65535 \<longrightarrow>
      vs_toggleAutoReconnect env s =
        (s\<lparr>VSCodeJetBrainsSync.autoReconnect := True, wss := Some (configuredPort env)\<rparr>,
         (if wss s \<noteq> None then [ServerClose] else []) @ [ServerListen (configuredPort env)],
         False)"
    by (auto simp: vs_toggleAutoReconnect_def vs_setupServer_def Let_def)
  have v4: "\<not> VSCodeJetBrainsSync.autoReconnect s \<and> configuredPort env > 65535 \<longrightarrow>
      vs_toggleAutoReconnect env s =
        (s\<lparr>VSCodeJetBrainsSync.autoReconnect := True\<rparr>,
         (if wss s \<noteq> None then [ServerClose] else []),
         True)"
    by (auto simp: vs_toggleAutoReconnect_def vs_setupServer_def Let_def)
  have j2: "VSCodeJetBrainsSyncService.autoReconnect t \<longrightarrow>
      jb_toggleAutoReconnect penv t =
        (t\<lparr>VSCodeJetBrainsSyncService.autoReconnect := False, webSocket := None,
            VSCodeJetBrainsSyncService.isConnected := False, isReconnecting := False\<rparr>,
         (case webSocket t of
            None \<Rightarrow> []
          | Some client \<Rightarrow> if isOpen client then [SocketClose] else []))"
    by (auto simp: jb_toggleAutoReconnect_def Let_def)
  have j3: "\<not> VSCodeJetBrainsSyncService.autoReconnect t \<and> \<not> clientThrows penv \<longrightarrow>
      jb_toggleAutoReconnect penv t =
        (t\<lparr>VSCodeJetBrainsSyncService.autoReconnect := True, isReconnecting := True,
            webSocket := Some \<lparr>isOpen = False\<rparr>\<rparr>,
         [Connect (port penv)])"
    by (auto simp: jb_toggleAutoReconnect_def jb_connectWebSocket_def Let_def)
  have j4: "\<not> VSCodeJetBrainsSyncService.autoReconnect t \<and> clientThrows penv \<longrightarrow>
      jb_toggleAutoReconnect penv t =
        (t\<lparr>VSCodeJetBrainsSyncService.autoReconnect := True, isReconnecting := True,
            VSCodeJetBrainsSyncService.isConnected := False\<rparr>,
         [RetryLater])"
    by (auto simp: jb_toggleAutoReconnect_def jb_connectWebSocket_def Let_def)
  show ?thesis
    using v1 [of env s] v1 [of env' "fst (vs_toggleAutoReconnect env s)"] v2 v3 v4
      j1 [of penv t] j1 [of penv' "fst (jb_toggleAutoReconnect penv t)"] j2 j3 j4
    by simp
qed

theorem toggle_flips_witness:
  "vs_toggleAutoReconnect calm_editor vs_fresh =
     (vs_fresh\<lparr>VSCodeJetBrainsSync.autoReconnect := True, wss := Some 3000\<rparr>,
      [ServerListen 3000], False) \<and>
   vs_toggleAutoReconnect (calm_editor\<lparr>configuredPort := 70000\<rparr>) vs_fresh =
     (vs_fresh\<lparr>VSCodeJetBrainsSync.autoReconnect := True\<rparr>, [], True) \<and>
   vs_toggleAutoReconnect calm_editor vs_linked =
     (vs_fresh\<lparr>VSCodeJetBrainsSync.isActive := True\<rparr>, [ClientClose, ServerClose], False) \<and>
   jb_toggleAutoReconnect calm_platform jb_fresh =
     (jb_fresh\<lparr>VSCodeJetBrainsSyncService.autoReconnect := True, isReconnecting := True,
               webSocket := Some \<lparr>isOpen = False\<rparr>\<rparr>,
      [Connect 3000]) \<and>
   jb_toggleAutoReconnect (calm_platform\<lparr>clientThrows := True\<rparr>) jb_fresh =
     (jb_fresh\<lparr>VSCodeJetBrainsSyncService.autoReconnect := True, isReconnecting := True\<rparr>,
      [RetryLater]) \<and>
   jb_toggleAutoReconnect calm_platform jb_linked =
     (jb_fresh\<lparr>VSCodeJetBrainsSyncService.isActive := True\<rparr>, [SocketClose])"
proof -
  note a = toggle_flips [where env = calm_editor and s = vs_fresh and env' = calm_editor
      and penv = calm_platform and t = jb_fresh and penv' = calm_platform]
  note b = toggle_flips [where env = "calm_editor\<lparr>configuredPort := 70000\<rparr>" and s = vs_fresh
      and env' = calm_editor and penv = "calm_platform\<lparr>clientThrows := True\<rparr>" and t = jb_fresh
      and penv' = calm_platform]
  note c = toggle_flips [where env = calm_editor and s = vs_linked and env' = calm_editor
      and penv = calm_platform and t = jb_linked and penv' = calm_platform]
  have w1: "vs_toggleAutoReconnect calm_editor vs_fresh =
      (vs_fresh\<lparr>VSCodeJetBrainsSync.autoReconnect := True, wss := Some 3000\<rparr>,
       [ServerListen 3000], False)"
    and w4: "jb_toggleAutoReconnect calm_platform jb_fresh =
      (jb_fresh\<lparr>VSCodeJetBrainsSyncService.autoReconnect := True, isReconnecting := True,
                webSocket := Some \<lparr>isOpen = False\<rparr>\<rparr>,
       [Connect 3000])"
    using a by (simp_all add: vs_fresh_def jb_fresh_def calm_editor_def calm_platform_def)
  have w2: "vs_toggleAutoReconnect (calm_editor\<lparr>configuredPort := 70000\<rparr>) vs_fresh =
      (vs_fresh\<lparr>VSCodeJetBrainsSync.autoReconnect := True\<rparr>, [], True)"
    and w5: "jb_toggleAutoReconnect (calm_platform\<lparr>clientThrows := True\<rparr>) jb_fresh =
      (jb_fresh\<lparr>VSCodeJetBrainsSyncService.autoReconnect := True, isReconnecting := True\<rparr>,
       [RetryLater])"
    using b by (simp_all add: vs_fresh_def jb_fresh_def calm_editor_def calm_platform_def)
  have w3: "vs_toggleAutoReconnect calm_editor vs_linked =
      (vs_fresh\<lparr>VSCodeJetBrainsSync.isActive := True\<rparr>, [ClientClose, ServerClose], False)"
    and w6: "jb_toggleAutoReconnect calm_platform jb_linked =
      (jb_fresh\<lparr>VSCodeJetBrainsSyncService.isActive := True\<rparr>, [SocketClose])"
    using c by (simp_all add: vs_fresh_def vs_linked_def jb_fresh_def jb_linked_def)
  show ?thesis
    using w1 w2 w3 w4 w5 w6 by blast
qed

theorem toggle_twice_counterexample:
  "VSCodeJetBrainsSync.autoReconnect
     (fst (vs_toggleAutoReconnect calm_editor (fst (vs_toggleAutoReconnect calm_editor vs_fresh))))
   \<noteq> VSCodeJetBrainsSync.autoReconnect (fst (vs_toggleAutoReconnect calm_editor vs_fresh)) \<and>
   VSCodeJetBrainsSyncService.autoReconnect
     (fst (jb_toggleAutoReconnect calm_platform
        (fst (jb_toggleAutoReconnect calm_platform jb_fresh))))
   \<noteq> VSCodeJetBrainsSyncService.autoReconnect
        (fst (jb_toggleAutoReconnect calm_platform jb_fresh))"
  by (simp add: vs_toggleAutoReconnect_def vs_setupServer_def jb_toggleAutoReconnect_def
      jb_connectWebSocket_def vs_fresh_def jb_fresh_def calm_platform_def Let_def)

section \<open>Decoding\<close>

text \<open>What the handlers of the extension read of a message.\<close>

lemma vs_applyClose_reads:
  assumes "wire.filePath w' = wire.filePath w"
  shows "vs_applyClose env s w' = vs_applyClose env s w"
  unfolding vs_applyClose_def assms by (rule refl)

lemma vs_applySelect_reads:
  assumes "wire.filePath w' = wire.filePath w" and "wire.line w' = wire.line w"
    and "wire.column w' = wire.column w"
  shows "vs_applySelect env s w' = vs_applySelect env s w"
  unfolding vs_applySelect_def assms by (rule refl)

lemma vs_handleIncomingState_reads:
  assumes "(wire.source w' = Some ''vscode'') = (wire.source w = Some ''vscode'')"
    and "(wire.action w' = Some ''close'') = (wire.action w = Some ''close'')"
    and "(wire.isActive w' = Some True) = (wire.isActive w = Some True)"
    and "wire.filePath w' = wire.filePath w" and "wire.line w' = wire.line w"
    and "wire.column w' = wire.column w"
  shows "vs_handleIncomingState env s w' = vs_handleIncomingState env s w"
proof -
  have c: "\<And>x. vs_applyClose env x w' = vs_applyClose env x w"
    using assms(4) by (rule vs_applyClose_reads)
  have d: "\<And>x. vs_applySelect env x w' = vs_applySelect env x w"
    using assms(4-6) by (rule vs_applySelect_reads)
  show ?thesis
    unfolding vs_handleIncomingState_def c d assms(1) assms(2) assms(3) by (rule refl)
qed

text \<open>
  Claim C7 (decoding), as amended. A frame that does not parse is dropped by both peers:
  the session is unchanged and no call is made; the plugin treats an object whose
  \<open>line\<close> or \<open>column\<close> does not fit an \<open>Int\<close> the same way, and refuses no other object.
  An object is not refused for a missing member. Without \<open>source\<close> it is handled as a
  message of the other peer; without \<open>isActive\<close> as one with \<open>isActive = false\<close>; without
  \<open>action\<close> as a \<open>select\<close>; the plugin reads a missing \<open>line\<close> or \<open>column\<close> as \<open>0\<close>;
  without \<open>filePath\<close> the extension makes no call and the closures of the plugin make
  none either.
\<close>

theorem decoding_defaults:
  "vs_onMessage env s Unparsable = (s, []) \<and>
   jb_onMessage t (Some Unparsable) = (t, []) \<and>
   (fromJson (Object w) = None) =
     (\<exists>n. (wire.line w = Some n \<or> wire.column w = Some n) \<and> \<not> fitsInt n) \<and>
   (fromJson (Object w) = None \<longrightarrow> jb_onMessage t (Some (Object w)) = (t, [])) \<and>
   (wire.source w = None \<longrightarrow>
      vs_onMessage env s (Object w) =
        vs_onMessage env s (Object (w\<lparr>wire.source := Some ''jetbrains''\<rparr>)) \<and>
      jb_onMessage t (Some (Object w)) =
        jb_onMessage t (Some (Object (w\<lparr>wire.source := Some ''vscode''\<rparr>)))) \<and>
   (wire.isActive w = None \<longrightarrow>
      vs_onMessage env s (Object w) =
        vs_onMessage env s (Object (w\<lparr>wire.isActive := Some False\<rparr>)) \<and>
      jb_onMessage t (Some (Object w)) =
        jb_onMessage t (Some (Object (w\<lparr>wire.isActive := Some False\<rparr>)))) \<and>
   (wire.action w = None \<longrightarrow>
      vs_onMessage env s (Object w) =
        vs_onMessage env s (Object (w\<lparr>wire.action := Some ''select''\<rparr>)) \<and>
      jb_onMessage t (Some (Object w)) =
        jb_onMessage t (Some (Object (w\<lparr>wire.action := Some ''select''\<rparr>)))) \<and>
   (wire.line w = None \<longrightarrow>
      jb_onMessage t (Some (Object w)) =
        jb_onMessage t (Some (Object (w\<lparr>wire.line := Some 0\<rparr>)))) \<and>
   (wire.column w = None \<longrightarrow>
      jb_onMessage t (Some (Object w)) =
        jb_onMessage t (Some (Object (w\<lparr>wire.column := Some 0\<rparr>)))) \<and>
   (wire.filePath w = None \<longrightarrow>
      snd (vs_onMessage env s (Object w)) = [] \<and>
      jb_runTask penv t' (ApplyClose (wire.filePath w)) = (t', []) \<and>
      jb_runTask penv t' (ApplySelect (wire.filePath w) l c) = (t', []))"
proof (intro conjI impI)
  show "vs_onMessage env s Unparsable = (s, [])"
    by (simp add: vs_onMessage_def)
  show "jb_onMessage t (Some Unparsable) = (t, [])"
    by (simp add: jb_onMessage_def fromJson_def)
  show "(fromJson (Object w) = None) =
     (\<exists>n. (wire.line w = Some n \<or> wire.column w = Some n) \<and> \<not> fitsInt n)"
    unfolding fromJson_None readInt_None by blast
next
  assume "fromJson (Object w) = None"
  then show "jb_onMessage t (Some (Object w)) = (t, [])"
    by (simp add: jb_onMessage_def)
next
  assume "wire.source w = None"
  then show "vs_onMessage env s (Object w) =
        vs_onMessage env s (Object (w\<lparr>wire.source := Some ''jetbrains''\<rparr>))"
    using vs_handleIncomingState_reads [of "w\<lparr>wire.source := Some ''jetbrains''\<rparr>" w env s]
    by (simp add: vs_onMessage_def)
next
  assume "wire.source w = None"
  then show "jb_onMessage t (Some (Object w)) =
        jb_onMessage t (Some (Object (w\<lparr>wire.source := Some ''vscode''\<rparr>)))"
    by (auto simp: jb_onMessage_def fromJson_def jb_handleIncomingState_def
        split: option.splits)
next
  assume "wire.isActive w = None"
  then show "vs_onMessage env s (Object w) =
        vs_onMessage env s (Object (w\<lparr>wire.isActive := Some False\<rparr>))"
    using vs_handleIncomingState_reads [of "w\<lparr>wire.isActive := Some False\<rparr>" w env s]
    by (simp add: vs_onMessage_def)
next
  assume "wire.isActive w = None"
  then show "jb_onMessage t (Some (Object w)) =
        jb_onMessage t (Some (Object (w\<lparr>wire.isActive := Some False\<rparr>)))"
    by (auto simp: jb_onMessage_def fromJson_def jb_handleIncomingState_def
        split: option.splits)
next
  assume "wire.action w = None"
  then show "vs_onMessage env s (Object w) =
        vs_onMessage env s (Object (w\<lparr>wire.action := Some ''select''\<rparr>))"
    using vs_handleIncomingState_reads [of "w\<lparr>wire.action := Some ''select''\<rparr>" w env s]
    by (simp add: vs_onMessage_def)
next
  assume "wire.action w = None"
  then show "jb_onMessage t (Some (Object w)) =
        jb_onMessage t (Some (Object (w\<lparr>wire.action := Some ''select''\<rparr>)))"
    by (auto simp: jb_onMessage_def fromJson_def jb_handleIncomingState_def
        split: option.splits)
next
  assume "wire.line w = None"
  then show "jb_onMessage t (Some (Object w)) =
        jb_onMessage t (Some (Object (w\<lparr>wire.line := Some 0\<rparr>)))"
    by (auto simp: jb_onMessage_def fromJson_def readInt_def fitsInt_def
        jb_handleIncomingState_def split: option.splits)
next
  assume "wire.column w = None"
  then show "jb_onMessage t (Some (Object w)) =
        jb_onMessage t (Some (Object (w\<lparr>wire.column := Some 0\<rparr>)))"
    by (auto simp: jb_onMessage_def fromJson_def readInt_def fitsInt_def
        jb_handleIncomingState_def split: option.splits)
next
  assume "wire.filePath w = None"
  then show "snd (vs_onMessage env s (Object w)) = []"
    by (simp add: vs_onMessage_def vs_handleIncomingState_def vs_applyClose_def
        vs_applySelect_def)
next
  assume "wire.filePath w = None"
  then show "jb_runTask penv t' (ApplyClose (wire.filePath w)) = (t', [])"
    by (simp add: jb_runTask_def jb_applyClose_def)
next
  assume "wire.filePath w = None"
  then show "jb_runTask penv t' (ApplySelect (wire.filePath w) l c) = (t', [])"
    by (simp add: jb_runTask_def jb_applySelect_def)
qed

theorem decoding_defaults_witness:
  "wire.action no_action = None \<and>
   vs_onMessage calm_editor vs_linked (Object no_action) =
     vs_onMessage calm_editor vs_linked (Object (select_by ''jetbrains'' True)) \<and>
   wire.filePath empty_object = None \<and>
   snd (vs_onMessage calm_editor vs_linked (Object empty_object)) = [] \<and>
   jb_runTask calm_platform jb_linked (ApplyClose None) = (jb_linked, []) \<and>
   wire.source empty_object = None \<and>
   jb_onMessage jb_linked (Some (Object empty_object)) =
     jb_onMessage jb_linked (Some (Object (empty_object\<lparr>wire.source := Some ''vscode''\<rparr>))) \<and>
   fromJson (Object (empty_object\<lparr>wire.line := Some 4294967296\<rparr>)) = None \<and>
   jb_onMessage jb_linked (Some (Object (empty_object\<lparr>wire.line := Some 4294967296\<rparr>))) =
     (jb_linked, [])"
proof -
  note d1 = decoding_defaults [where w = no_action and env = calm_editor and s = vs_linked
      and t = jb_linked and penv = calm_platform and t' = jb_linked and l = 0 and c = 0]
  note d2 = decoding_defaults [where w = empty_object and env = calm_editor and s = vs_linked
      and t = jb_linked and penv = calm_platform and t' = jb_linked and l = 0 and c = 0]
  note d3 = decoding_defaults [where w = "empty_object\<lparr>wire.line := Some 4294967296\<rparr>"
      and env = calm_editor and s = vs_linked
      and t = jb_linked and penv = calm_platform and t' = jb_linked and l = 0 and c = 0]
  have act: "wire.action no_action = None"
    by (simp add: no_action_def select_by_def)
  have sel: "no_action\<lparr>wire.action := Some ''select''\<rparr> = select_by ''jetbrains'' True"
    by (simp add: no_action_def select_by_def)
  have fp: "wire.filePath empty_object = None" and src: "wire.source empty_object = None"
    by (simp_all add: empty_object_def)
  have big: "\<exists>n. (wire.line (empty_object\<lparr>wire.line := Some 4294967296\<rparr>) = Some n \<or>
      wire.column (empty_object\<lparr>wire.line := Some 4294967296\<rparr>) = Some n) \<and> \<not> fitsInt n"
    by (rule exI [of _ 4294967296]) (simp add: fitsInt_def)
  have a: "vs_onMessage calm_editor vs_linked (Object no_action) =
      vs_onMessage calm_editor vs_linked (Object (no_action\<lparr>wire.action := Some ''select''\<rparr>))"
    using d1 act by blast
  have b: "snd (vs_onMessage calm_editor vs_linked (Object empty_object)) = [] \<and>
      jb_runTask calm_platform jb_linked (ApplyClose (wire.filePath empty_object)) = (jb_linked, [])"
    using d2 fp by blast
  have c: "jb_onMessage jb_linked (Some (Object empty_object)) =
      jb_onMessage jb_linked (Some (Object (empty_object\<lparr>wire.source := Some ''vscode''\<rparr>)))"
    using d2 src by blast
  have d: "fromJson (Object (empty_object\<lparr>wire.line := Some 4294967296\<rparr>)) = None"
    using d3 big by blast
  have e: "jb_onMessage jb_linked (Some (Object (empty_object\<lparr>wire.line := Some 4294967296\<rparr>))) =
      (jb_linked, [])"
    using d3 d by blast
  show ?thesis
    using act a b c d e fp src unfolding sel by simp
qed

theorem decoding_counterexample:
  "wire.action no_action = None \<and>
   vs_onMessage calm_editor vs_linked (Object no_action) =
     (vs_linked,
      [OpenTextDocument (file_uri ''/x.py''), ShowTextDocument (file_uri ''/x.py''),
       SetSelection (Some 10) (Some 4), RevealRangeInCenter (Some 10) (Some 4)]) \<and>
   jb_onMessage jb_linked (Some (Object ((select_by ''vscode'' True)\<lparr>wire.line := None\<rparr>))) =
     (jb_linked, [InvokeLater (ApplySelect (Some ''/x.py'') 0 4)]) \<and>
   jb_onMessage jb_linked (Some (Object ((select_by ''vscode'' True)\<lparr>wire.column := None\<rparr>))) =
     (jb_linked, [InvokeLater (ApplySelect (Some ''/x.py'') 10 0)]) \<and>
   jb_onMessage jb_linked (Some (Object ((close_by ''vscode'' True)\<lparr>wire.filePath := None\<rparr>))) =
     (jb_linked, [InvokeLater (ApplyClose None)])"
  by (simp add: no_action_def select_by_def close_by_def vs_onMessage_def
      vs_handleIncomingState_def vs_applySelect_def vs_await_def calm_editor_def vs_linked_def
      jb_onMessage_def fromJson_def readInt_def fitsInt_def jb_handleIncomingState_def
      jb_invokeLater_def jb_linked_def Let_def)

section \<open>The echo guard and the scroll\<close>

text \<open>
  While the flag is set, the listeners of the extension drop every event but a change of
  the window's focus, whose listener does not look at the flag. Both handlers leave the
  flag cleared when they have taken an apply branch.
\<close>

lemma vs_listener_guarded:
  assumes "VSCodeJetBrainsSync.isHandlingExternalUpdate s"
    and "\<And>f. e \<noteq> DidChangeWindowState f"
  shows "vs_listener s e = (s, [])"
  using assms by (cases e) (auto simp: vs_listener_def split: option.splits)

lemma vs_deliver_guarded:
  assumes "VSCodeJetBrainsSync.isHandlingExternalUpdate s"
    and "\<And>e f. e \<in> set es \<Longrightarrow> e \<noteq> DidChangeWindowState f"
  shows "vs_deliver s es = (s, [])"
  using assms
proof (induction es)
  case Nil
  show ?case by simp
next
  case (Cons e es)
  have "vs_listener s e = (s, [])"
    using Cons.prems by (intro vs_listener_guarded) auto
  moreover have "vs_deliver s es = (s, [])"
    using Cons.prems by (intro Cons.IH) auto
  ultimately show ?case by simp
qed

lemma vs_await_guarded:
  assumes "VSCodeJetBrainsSync.isHandlingExternalUpdate s"
    and "\<And>e f. e \<in> set (during env c) \<Longrightarrow> e \<noteq> DidChangeWindowState f"
  shows "vs_await env s c = (s, [c], rejects env c)"
  using vs_deliver_guarded [of s "during env c"] assms by (simp add: vs_await_def)

lemma vs_no_echo_while_applying:
  assumes quiet: "\<And>c e f. e \<in> set (during env c) \<Longrightarrow> e \<noteq> DidChangeWindowState f"
  shows "set (snd (vs_handleIncomingState env s w)) \<inter> range Send = {}"
proof -
  have aw: "\<And>x c. VSCodeJetBrainsSync.isHandlingExternalUpdate x \<Longrightarrow>
      vs_await env x c = (x, [c], rejects env c)"
    using quiet by (intro vs_await_guarded) auto
  have cl: "\<And>x. VSCodeJetBrainsSync.isHandlingExternalUpdate x \<Longrightarrow>
      set (fst (snd (vs_applyClose env x w))) \<inter> range Send = {}"
    by (auto simp: vs_applyClose_def aw split: option.splits)
  have se: "\<And>x. VSCodeJetBrainsSync.isHandlingExternalUpdate x \<Longrightarrow>
      set (snd (vs_applySelect env x w)) \<inter> range Send = {}"
    by (auto simp: vs_applySelect_def aw Let_def split: option.splits)
  have cl': "set (fst (snd (vs_applyClose env
      (s\<lparr>VSCodeJetBrainsSync.isHandlingExternalUpdate := True\<rparr>) w))) \<inter> range Send = {}"
    by (rule cl) simp
  have se': "\<And>x. set (snd (vs_applySelect env
      (x\<lparr>VSCodeJetBrainsSync.isHandlingExternalUpdate := True\<rparr>) w)) \<inter> range Send = {}"
    by (rule se) simp
  show ?thesis
  proof (cases "vs_applyClose env (s\<lparr>VSCodeJetBrainsSync.isHandlingExternalUpdate := True\<rparr>) w")
    case (fields s' out threw)
    have o: "set out \<inter> range Send = {}"
      using cl' fields by simp
    obtain s2 out2 where ap: "vs_applySelect env
        (s'\<lparr>VSCodeJetBrainsSync.isHandlingExternalUpdate := True\<rparr>) w = (s2, out2)"
      by (cases "vs_applySelect env (s'\<lparr>VSCodeJetBrainsSync.isHandlingExternalUpdate := True\<rparr>) w")
    have o2: "set out2 \<inter> range Send = {}"
      using se' [of s'] ap by simp
    obtain s3 out3 where ap3: "vs_applySelect env
        (s\<lparr>VSCodeJetBrainsSync.isHandlingExternalUpdate := True\<rparr>) w = (s3, out3)"
      by (cases "vs_applySelect env (s\<lparr>VSCodeJetBrainsSync.isHandlingExternalUpdate := True\<rparr>) w")
    have o3: "set out3 \<inter> range Send = {}"
      using se' [of s] ap3 by simp
    show ?thesis
      using fields o ap o2 ap3 o3
      by (auto simp: vs_handleIncomingState_def Let_def)
  qed
qed

lemma vs_flag_released:
  assumes "wire.source w \<noteq> Some ''vscode''"
    and "wire.action w = Some ''close'' \<or> wire.isActive w = Some True"
  shows "\<not> VSCodeJetBrainsSync.isHandlingExternalUpdate (fst (vs_handleIncomingState env s w))"
  using assms
  by (auto simp: vs_handleIncomingState_def Let_def split: prod.splits if_splits)

lemma jb_flag_released:
  assumes "EditorState.action st = Some ''close'' \<or> EditorState.isActive st"
  shows "\<not> VSCodeJetBrainsSyncService.isHandlingExternalUpdate (fst (jb_handleIncomingState s st))"
  using assms by (auto simp: jb_handleIncomingState_def jb_invokeLater_def)

text \<open>
  Claim C5 (the echo guard is held while an external update is applied), evaluated for
  the plugin: a connected plugin receives a \<open>close\<close> of \<open>/x.py\<close> from the extension. When
  \<open>handleIncomingState\<close> returns, the flag is already cleared and the closure that closes
  the file is only queued. When the closure then runs, the platform reports the closed
  file to the \<open>fileClosed\<close> listener, the flag does not stop it, and the close is sent
  back to the extension.
\<close>

theorem echo_guard_released_before_apply:
  "jb_onMessage (jb_linked\<lparr>VSCodeJetBrainsSyncService.isActive := False\<rparr>)
     (Some (Object (close_by ''vscode'' True))) =
     (jb_linked\<lparr>VSCodeJetBrainsSyncService.isActive := False\<rparr>,
      [InvokeLater (ApplyClose (Some ''/x.py''))]) \<and>
   jb_runTask echoing_platform (jb_linked\<lparr>VSCodeJetBrainsSyncService.isActive := False\<rparr>)
     (ApplyClose (Some ''/x.py'')) =
     (jb_linked\<lparr>VSCodeJetBrainsSyncService.isActive := False\<rparr>,
      [CloseFile ''/x.py'', SocketSend (close_by ''jetbrains'' False)])"
  by (simp add: jb_onMessage_def fromJson_def readInt_def fitsInt_def
      jb_handleIncomingState_def jb_invokeLater_def jb_runTask_def jb_applyClose_def jb_perform_def jb_listener_def jb_updateState_def
      toJson_def close_by_def jb_linked_def echoing_platform_def calm_platform_def)

text \<open>
  A scroll in the select closure of the plugin comes from the closure itself, and the
  closure scrolls only when the visible area does not hold the position.
\<close>

lemma jb_perform_no_scroll:
  assumes "jb_perform env s c = (s', out, r)" and "c \<noteq> ScrollToCaret vf"
  shows "ScrollToCaret vf \<notin> set out"
  using assms jb_deliver_calls [of env s "fires env c"]
  by (auto simp: jb_perform_def Let_def split: prod.splits)

lemma jb_scrolls_only_if_not_visible:
  assumes "ScrollToCaret f \<in> set (snd (jb_applySelect env s (Some q) l c))"
  shows "\<exists>vf. findFileByIoFile env q = Some vf \<and> \<not> visibleAreaContains env vf l c"
proof (cases "findFileByIoFile env q")
  case None
  then show ?thesis using assms by (simp add: jb_applySelect_def)
next
  case (Some vf)
  show ?thesis
  proof (cases "visibleAreaContains env vf l c")
    case False
    then show ?thesis using Some by simp
  next
    case True
    have "ScrollToCaret f \<notin> set (snd (jb_applySelect env s (Some q) l c))"
      using Some True
      by (auto simp: jb_applySelect_def Let_def split: prod.splits if_splits
          dest: jb_perform_no_scroll)
    then show ?thesis using assms by simp
  qed
qed

text \<open>
  Claim C6 (scroll only if the position is not visible), evaluated for the extension: for
  the active \<open>select\<close> of \<open>/x.py\<close> at 10:4 the extension opens and shows the document, sets
  the selection and then calls \<open>revealRange\<close> with \<open>InCenter\<close>. It asks nowhere whether
  the position is visible, so the call is made also when it is.
\<close>

theorem reveal_is_unconditional:
  "vs_onMessage calm_editor vs_linked (Object (select_by ''jetbrains'' True)) =
     (vs_linked,
      [OpenTextDocument (file_uri ''/x.py''), ShowTextDocument (file_uri ''/x.py''),
       SetSelection (Some 10) (Some 4), RevealRangeInCenter (Some 10) (Some 4)])"
  by (simp add: select_by_def vs_onMessage_def vs_handleIncomingState_def
      vs_applySelect_def vs_await_def calm_editor_def vs_linked_def Let_def)

end
